theory Spec2Isabelle
  imports Main "HOL-Library.Sublist" "HOL-Library.List_Lexorder"
begin

section \<open>Python strings\<close>

text \<open>
  A Python \<^verbatim>\<open>str\<close> is a sequence of Unicode code points. A code point is a natural
  number and a string a list of them, so that \<^verbatim>\<open>len\<close>, indexing and comparison count
  what Python counts. \<open>ustr\<close> turns an ASCII literal into such a string.
\<close>

type_synonym ustr = "nat list"

definition ustr :: "string \<Rightarrow> ustr" where
  "ustr s = map of_char s"

text \<open>
  The library tables (\<^verbatim>\<open>str.upper\<close>, \<^verbatim>\<open>str.lower\<close>, canonical decomposition, general
  category) are written out for the blocks Basic Latin and Latin-1 Supplement
  (U+0000 to U+00FF), for the two letters outside them that \<^verbatim>\<open>upper\<close> reaches from there
  (U+0178, U+039C) and for the block Combining Diacritical Marks (U+0300 to U+036F),
  as Python 3 with Unicode 14 gives them. Code points beyond those are left as they are.
\<close>

definition upper_cp :: "nat \<Rightarrow> nat list" where
  "upper_cp c =
     (if 97 \<le> c \<and> c \<le> 122 then [c - 32]
      else if c = 181 then [924]
      else if c = 223 then [83, 83]
      else if 224 \<le> c \<and> c \<le> 254 \<and> c \<noteq> 247 then [c - 32]
      else if c = 255 then [376]
      else [c])"

definition lower_cp :: "nat \<Rightarrow> nat list" where
  "lower_cp c =
     (if 65 \<le> c \<and> c \<le> 90 then [c + 32]
      else if 192 \<le> c \<and> c \<le> 222 \<and> c \<noteq> 215 then [c + 32]
      else if c = 376 then [255]
      else if c = 924 then [956]
      else [c])"

definition py_upper :: "ustr \<Rightarrow> ustr" where
  "py_upper s = concat (map upper_cp s)"

definition py_lower :: "ustr \<Rightarrow> ustr" where
  "py_lower s = concat (map lower_cp s)"

text \<open>\<^verbatim>\<open>str.isspace\<close> of one code point: the whole list of Unicode 14.\<close>

definition py_isspace :: "nat \<Rightarrow> bool" where
  "py_isspace c =
     ((9 \<le> c \<and> c \<le> 13) \<or> (28 \<le> c \<and> c \<le> 32) \<or> c = 133 \<or> c = 160 \<or> c = 5760
      \<or> (8192 \<le> c \<and> c \<le> 8202) \<or> c = 8232 \<or> c = 8233 \<or> c = 8239 \<or> c = 8287
      \<or> c = 12288)"

text \<open>\<^verbatim>\<open>s.strip(chars)\<close> and \<^verbatim>\<open>s.strip()\<close>: the longest runs at both ends are removed.\<close>

definition strip_where :: "(nat \<Rightarrow> bool) \<Rightarrow> ustr \<Rightarrow> ustr" where
  "strip_where P s = rev (dropWhile P (rev (dropWhile P s)))"

definition py_strip :: "ustr \<Rightarrow> ustr" where
  "py_strip s = strip_where py_isspace s"

definition py_strip_chars :: "ustr \<Rightarrow> ustr \<Rightarrow> ustr" where
  "py_strip_chars chars s = strip_where (\<lambda>c. c \<in> set chars) s"

text \<open>\<^verbatim>\<open>s.replace(a, b)\<close> for one-character \<open>a\<close> and \<open>b\<close>.\<close>

definition py_replace :: "nat \<Rightarrow> nat \<Rightarrow> ustr \<Rightarrow> ustr" where
  "py_replace a b s = map (\<lambda>c. if c = a then b else c) s"

text \<open>
  \<^verbatim>\<open>s.split()\<close> with no argument: the maximal runs of non-whitespace, none of them empty.
  \<open>split_acc\<close> carries the word read so far, reversed.
\<close>

fun split_acc :: "ustr \<Rightarrow> ustr \<Rightarrow> ustr list" where
  "split_acc w [] = (if w = [] then [] else [rev w])"
| "split_acc w (c # cs) =
     (if py_isspace c then (if w = [] then split_acc [] cs else rev w # split_acc [] cs)
      else split_acc (c # w) cs)"

definition py_split :: "ustr \<Rightarrow> ustr list" where
  "py_split s = split_acc [] s"

text \<open>\<^verbatim>\<open>sep.join(parts)\<close>.\<close>

fun py_join :: "ustr \<Rightarrow> ustr list \<Rightarrow> ustr" where
  "py_join sep [] = []"
| "py_join sep [p] = p"
| "py_join sep (p # q # ps) = p @ sep @ py_join sep (q # ps)"

text \<open>\<^verbatim>\<open>a in b\<close> on strings is \<^const>\<open>sublist\<close>; \<^verbatim>\<open>s.endswith(t)\<close> is \<^const>\<open>suffix\<close>.\<close>

definition py_in :: "ustr \<Rightarrow> ustr \<Rightarrow> bool" where
  "py_in a b = sublist a b"

definition py_endswith :: "ustr \<Rightarrow> ustr list \<Rightarrow> bool" where
  "py_endswith s sufs = list_ex (\<lambda>t. suffix t s) sufs"

subsection \<open>unicodedata\<close>

text \<open>
  The canonical decompositions of the Latin-1 letters: a base letter and one combining
  mark; no code point below U+00C0 has one. \<^verbatim>\<open>normalize('NFD', s)\<close> replaces each code point by its decomposition; it also
  sorts runs of combining marks, which the caller deletes in the next step.
\<close>

definition nfd_upper_table :: "(nat \<times> nat list) list" where
  "nfd_upper_table =
     [(192, [65, 768]), (193, [65, 769]), (194, [65, 770]), (195, [65, 771]),
      (196, [65, 776]), (197, [65, 778]), (199, [67, 807]), (200, [69, 768]),
      (201, [69, 769]), (202, [69, 770]), (203, [69, 776]), (204, [73, 768]),
      (205, [73, 769]), (206, [73, 770]), (207, [73, 776]), (209, [78, 771]),
      (210, [79, 768]), (211, [79, 769]), (212, [79, 770]), (213, [79, 771]),
      (214, [79, 776]), (217, [85, 768]), (218, [85, 769]), (219, [85, 770]),
      (220, [85, 776]), (221, [89, 769])]"

definition nfd_cp :: "nat \<Rightarrow> nat list" where
  "nfd_cp c =
     (if c < 192 then [c]
      else if c = 255 then [121, 776]
      else if c = 376 then [89, 776]
      else if 224 \<le> c \<and> c \<le> 253 then
        (case map_of nfd_upper_table (c - 32) of
           Some d \<Rightarrow> [hd d + 32, last d]
         | None \<Rightarrow> [c])
      else (case map_of nfd_upper_table c of Some d \<Rightarrow> d | None \<Rightarrow> [c]))"

definition nfd :: "ustr \<Rightarrow> ustr" where
  "nfd s = concat (map nfd_cp s)"

text \<open>\<^verbatim>\<open>unicodedata.category(c) == 'Mn'\<close>, on the block of combining diacritical marks.\<close>

definition is_Mn :: "nat \<Rightarrow> bool" where
  "is_Mn c = (768 \<le> c \<and> c \<le> 879)"

section \<open>Column names\<close>

text \<open>
  A column label of a DataFrame is any Python object. \<open>LStr s\<close> is the string \<open>s\<close>;
  \<open>LObj s\<close> is an object that is not a string (a number or a date in the header row)
  and whose \<^verbatim>\<open>str()\<close> is \<open>s\<close>.
\<close>

datatype label = LStr ustr | LObj ustr

fun py_str_label :: "label \<Rightarrow> ustr" where
  "py_str_label (LStr s) = s"
| "py_str_label (LObj s) = s"

text \<open>
  \<^verbatim>\<open>normalize_column\<close>: upper case and underscores to spaces; accents away; runs of
  whitespace to one space, none at the ends; then asterisks away at both ends.
\<close>

definition normalize_column :: "label \<Rightarrow> ustr" where
  "normalize_column col =
     (let col1 = py_replace 95 32 (py_upper (py_str_label col));
          col2 = filter (\<lambda>c. \<not> is_Mn c) (nfd col1);
          col3 = py_join [32] (py_split col2);
          col4 = py_strip_chars [42] col3
      in col4)"

section \<open>Paths\<close>

text \<open>
  \<^verbatim>\<open>os.path\<close> as on POSIX: the separator is the slash (47), the extension separator the
  dot (46). \<open>rfind c p\<close> is \<^verbatim>\<open>p.rfind(c)\<close>: the index of the last \<open>c\<close>, or \<open>-1\<close>.
\<close>

fun rfind_from :: "nat \<Rightarrow> ustr \<Rightarrow> int \<Rightarrow> int \<Rightarrow> int" where
  "rfind_from c [] i found = found"
| "rfind_from c (x # xs) i found = rfind_from c xs (i + 1) (if x = c then i else found)"

definition rfind :: "nat \<Rightarrow> ustr \<Rightarrow> int" where
  "rfind c p = rfind_from c p 0 (- 1)"

text \<open>
  \<^verbatim>\<open>os.path.splitext\<close>: the path is cut at the last dot, when that dot comes after the
  last slash and some character between the two is not a dot.
\<close>

definition splitext :: "ustr \<Rightarrow> ustr \<times> ustr" where
  "splitext p =
     (let sepIndex = rfind 47 p; dotIndex = rfind 46 p
      in if dotIndex > sepIndex \<and>
            list_ex (\<lambda>c. c \<noteq> 46) (take (nat (dotIndex - (sepIndex + 1))) (drop (nat (sepIndex + 1)) p))
         then (take (nat dotIndex) p, drop (nat dotIndex) p)
         else (p, []))"

definition basename :: "ustr \<Rightarrow> ustr" where
  "basename p = drop (nat (rfind 47 p + 1)) p"

definition dirname :: "ustr \<Rightarrow> ustr" where
  "dirname p =
     (let hd_part = take (nat (rfind 47 p + 1)) p
      in if hd_part \<noteq> [] \<and> hd_part \<noteq> replicate (length hd_part) 47
         then rev (dropWhile (\<lambda>c. c = 47) (rev hd_part))
         else hd_part)"

definition path_join :: "ustr \<Rightarrow> ustr \<Rightarrow> ustr" where
  "path_join a b =
     (if prefix [47] b then b
      else if a = [] \<or> suffix [47] a then a @ b
      else a @ [47] @ b)"

text \<open>The extension as both entry points compute it: \<^verbatim>\<open>os.path.splitext(file_path)[1].lower()\<close>.\<close>

definition file_ext :: "ustr \<Rightarrow> ustr" where
  "file_ext file_path = py_lower (snd (splitext file_path))"

definition ext_xlsx :: ustr where
  "ext_xlsx = ustr ''.xlsx''"

definition ext_xls :: ustr where
  "ext_xls = ustr ''.xls''"

section \<open>Tables and the world outside\<close>

text \<open>
  Python exceptions are values. Every one of them below derives from \<^verbatim>\<open>Exception\<close>, so the
  handlers of the source catch each.
\<close>

datatype pyerr = OSError | ValueError | AttributeError | KeyError | InvalidIndexError

text \<open>
  A cell of a DataFrame: \<^verbatim>\<open>None\<close>, the float \<^verbatim>\<open>nan\<close> that pandas stores for a missing
  value, or a string.
\<close>

datatype cell = PyNone | NaN | Str ustr

text \<open>
  A DataFrame is kept by columns, in position order; labels may repeat. \<open>nrows\<close> is
  \<^verbatim>\<open>len(df)\<close>.
\<close>

record dataframe =
  nrows :: nat
  cols :: "(label \<times> cell list) list"

definition columns :: "dataframe \<Rightarrow> label list" where
  "columns df = map fst (cols df)"

text \<open>\<^verbatim>\<open>pd.DataFrame()\<close>: no column and no row.\<close>

definition empty_frame :: dataframe where
  "empty_frame = \<lparr>nrows = 0, cols = []\<rparr>"

text \<open>
  A cell of a worksheet as the scanning loop sees it: \<open>None\<close> for \<^verbatim>\<open>None\<close>, and
  \<open>Some s\<close> for any other value, \<open>s\<close> being its \<^verbatim>\<open>str()\<close>.
\<close>

type_synonym xcell = "ustr option"

datatype engine = Openpyxl | Xlrd

text \<open>
  The libraries and the file system are a parameter of the model:
  \<^item> \<open>load_workbook\<close>: the rows of the active sheet that \<^verbatim>\<open>openpyxl\<close> yields
    (\<^verbatim>\<open>iter_rows(min_row=1, values_only=True)\<close>), or the exception of opening the file;
  \<^item> \<open>open_workbook\<close>: the rows of sheet 0 that \<^verbatim>\<open>xlrd\<close> gives (\<^verbatim>\<open>row_values\<close>);
  \<^item> \<open>read_excel\<close>: \<^verbatim>\<open>pd.read_excel(path, header=h, dtype=str, engine=e)\<close>;
  \<^item> \<open>to_datetime_year\<close>: \<^verbatim>\<open>pd.to_datetime(column, errors='coerce').dt.year\<close>, \<open>None\<close>
    standing for \<^verbatim>\<open>NaT\<close>;
  \<^item> \<open>walk\<close>: the \<open>(root, file)\<close> pairs of \<^verbatim>\<open>os.walk(folder_path)\<close>, in its order.
\<close>

record env =
  load_workbook :: "ustr \<Rightarrow> pyerr + xcell list list"
  open_workbook :: "ustr \<Rightarrow> pyerr + xcell list list"
  read_excel :: "ustr \<Rightarrow> nat \<Rightarrow> engine \<Rightarrow> pyerr + dataframe"
  to_datetime_year :: "cell list \<Rightarrow> pyerr + int option list"
  walk :: "ustr \<Rightarrow> (ustr \<times> ustr) list"

section \<open>find_header_row\<close>

definition default_keywords :: "ustr list" where
  "default_keywords =
     [ustr ''DEPARTAMENTO'', ustr ''MUNICIPIO'', ustr ''FECHA'', ustr ''FECHA HECHO'',
      ustr ''CANTIDAD'']"

definition fallback_row :: nat where
  "fallback_row = 10"

text \<open>\<^verbatim>\<open>row_str\<close>: each cell stripped and upper-cased, \<^verbatim>\<open>None\<close> as the empty string.\<close>

definition row_str :: "xcell list \<Rightarrow> ustr list" where
  "row_str row = map (\<lambda>cell. case cell of None \<Rightarrow> [] | Some s \<Rightarrow> py_upper (py_strip s)) row"

definition row_matches :: "ustr list \<Rightarrow> xcell list \<Rightarrow> bool" where
  "row_matches search_keywords row =
     list_ex (\<lambda>cell. list_ex (\<lambda>keyword. py_in keyword cell) search_keywords) (row_str row)"

text \<open>The loop over \<^verbatim>\<open>enumerate(rows)\<close>: the index of the first matching row.\<close>

fun scan_rows :: "ustr list \<Rightarrow> nat \<Rightarrow> xcell list list \<Rightarrow> nat option" where
  "scan_rows search_keywords i [] = None"
| "scan_rows search_keywords i (row # rest) =
     (if row_matches search_keywords row then Some i
      else scan_rows search_keywords (Suc i) rest)"

definition scan_sheet :: "ustr list \<Rightarrow> nat \<Rightarrow> pyerr + xcell list list \<Rightarrow> nat" where
  "scan_sheet search_keywords max_rows opened =
     (case opened of
        Inl e \<Rightarrow> fallback_row
      | Inr sheet \<Rightarrow>
          (case scan_rows search_keywords 0 (take max_rows sheet) of
             Some i \<Rightarrow> i
           | None \<Rightarrow> fallback_row))"

text \<open>
  \<^verbatim>\<open>find_header_row(file_path, search_keywords=None, max_rows=30)\<close>. Both readers are told
  to stop after \<open>max_rows\<close> rows; an exception of either ends in the fallback.
\<close>

definition find_header_row :: "env \<Rightarrow> ustr \<Rightarrow> ustr list option \<Rightarrow> nat \<Rightarrow> nat" where
  "find_header_row E file_path search_keywords max_rows =
     (let kws = (case search_keywords of None \<Rightarrow> default_keywords | Some k \<Rightarrow> k);
          ext = file_ext file_path
      in if ext = ext_xlsx then scan_sheet kws max_rows (load_workbook E file_path)
         else if ext = ext_xls then scan_sheet kws max_rows (open_workbook E file_path)
         else fallback_row)"

section \<open>Per-file analysis\<close>

subsection \<open>value_counts\<close>

text \<open>
  Modelled from the spec: \<^verbatim>\<open>Series.value_counts\<close>, a function of pandas that is not
  part of the source. It counts each distinct value, in the order in which the values
  first appear, and sorts by falling count; values of one count stay in the order of
  their first appearance (the sort is stable), as the specification has it.
\<close>

fun first_seen :: "'a list \<Rightarrow> 'a list" where
  "first_seen [] = []"
| "first_seen (x # xs) = x # filter (\<lambda>y. y \<noteq> x) (first_seen xs)"

definition counts_first_seen :: "'a list \<Rightarrow> ('a \<times> nat) list" where
  "counts_first_seen xs = map (\<lambda>v. (v, count_list xs v)) (first_seen xs)"

definition value_counts :: "'a list \<Rightarrow> ('a \<times> nat) list" where
  "value_counts xs = sort_key (\<lambda>p. - int (snd p)) (counts_first_seen xs)"

subsection \<open>The run statistics\<close>

record col_stat =
  unique_values :: nat
  null_values :: nat
  data_type :: ustr

text \<open>
  \<^verbatim>\<open>self.stats\<close>. The nested dictionaries are maps of maps; \<open>data_types\<close> is created empty
  and never written.
\<close>

record stats =
  total_files :: nat
  processed_files :: nat
  error_files :: nat
  yearly_stats :: "ustr \<rightharpoonup> (int \<rightharpoonup> nat)"
  column_stats :: "ustr \<rightharpoonup> (label \<rightharpoonup> col_stat)"
  missing_values :: "ustr \<rightharpoonup> (label \<rightharpoonup> nat)"
  data_types :: "ustr \<rightharpoonup> ustr"
  records_per_file :: "ustr \<rightharpoonup> nat"
  total_records :: nat

definition init_stats :: stats where
  "init_stats =
     \<lparr>total_files = 0, processed_files = 0, error_files = 0, yearly_stats = Map.empty,
      column_stats = Map.empty, missing_values = Map.empty, data_types = Map.empty,
      records_per_file = Map.empty, total_records = 0\<rparr>"

subsection \<open>applymap\<close>

fun py_str_cell :: "cell \<Rightarrow> ustr" where
  "py_str_cell PyNone = ustr ''None''"
| "py_str_cell NaN = ustr ''nan''"
| "py_str_cell (Str s) = s"

text \<open>The function given to \<^verbatim>\<open>applymap\<close>: \<^verbatim>\<open>lambda x: str(x) if x is not None else ""\<close>.\<close>

definition cell_to_str :: "cell \<Rightarrow> cell" where
  "cell_to_str x = (if x \<noteq> PyNone then Str (py_str_cell x) else Str [])"

definition applymap :: "(cell \<Rightarrow> cell) \<Rightarrow> dataframe \<Rightarrow> dataframe" where
  "applymap f df = df\<lparr>cols := map (\<lambda>(l, cells). (l, map f cells)) (cols df)\<rparr>"

subsection \<open>analyze_dataframe\<close>

definition is_null :: "cell \<Rightarrow> bool" where
  "is_null x = (x = PyNone \<or> x = NaN)"

definition null_count :: "cell list \<Rightarrow> nat" where
  "null_count cells = length (filter is_null cells)"

text \<open>The entry written for one column: the three values computed from \<^verbatim>\<open>df[col]\<close>.\<close>

definition column_stat_of :: "cell list \<Rightarrow> col_stat" where
  "column_stat_of cells =
     \<lparr>unique_values = length (first_seen cells), null_values = null_count cells,
      data_type = ustr ''object''\<rparr>"

text \<open>
  The loop over \<^verbatim>\<open>df.columns\<close>. A label already recorded for the category is skipped.
  Where a label occurs twice in the frame, \<^verbatim>\<open>df[col]\<close> is a DataFrame and \<^verbatim>\<open>.unique()\<close>
  raises; what was written before stays.
\<close>

fun column_loop ::
  "label list \<Rightarrow> ustr \<Rightarrow> (label \<times> cell list) list \<Rightarrow> stats \<Rightarrow> pyerr option \<times> stats" where
  "column_loop all_labels crime_type [] st = (None, st)"
| "column_loop all_labels crime_type ((col, cells) # rest) st =
     (let per_crime = (case column_stats st crime_type of None \<Rightarrow> Map.empty | Some m \<Rightarrow> m)
      in if per_crime col \<noteq> None then column_loop all_labels crime_type rest st
         else if count_list all_labels col > 1 then (Some AttributeError, st)
         else column_loop all_labels crime_type rest
                (st\<lparr>column_stats :=
                      (column_stats st)(crime_type \<mapsto> per_crime(col \<mapsto> column_stat_of cells))\<rparr>))"

text \<open>A Python dictionary built from pairs: a later pair replaces an earlier one.\<close>

definition dict_of :: "('k \<times> 'v) list \<Rightarrow> ('k \<rightharpoonup> 'v)" where
  "dict_of ps = map_of (rev ps)"

definition missing_dict :: "dataframe \<Rightarrow> (label \<rightharpoonup> nat)" where
  "missing_dict df =
     dict_of (filter (\<lambda>(l, n). n > 0) (map (\<lambda>(l, cells). (l, null_count cells)) (cols df)))"

definition analyze_dataframe :: "dataframe \<Rightarrow> ustr \<Rightarrow> stats \<Rightarrow> pyerr option \<times> stats" where
  "analyze_dataframe df crime_type st =
     (let st1 = (if column_stats st crime_type = None
                 then st\<lparr>column_stats := (column_stats st)(crime_type \<mapsto> Map.empty)\<rparr>
                 else st)
      in case column_loop (columns df) crime_type (cols df) st1 of
           (Some e, st2) \<Rightarrow> (Some e, st2)
         | (None, st2) \<Rightarrow>
             (None, st2\<lparr>missing_values := (missing_values st2)(crime_type \<mapsto> missing_dict df)\<rparr>))"

subsection \<open>find_date_column and analyze_dates\<close>

definition date_indicators :: "ustr list" where
  "date_indicators =
     [ustr ''fecha'', [97, 241, 111], ustr ''year'', ustr ''date'', ustr ''periodo'',
      ustr ''mes'']"

text \<open>
  \<^verbatim>\<open>col.lower()\<close> exists on strings only: on any other label the loop raises
  \<^verbatim>\<open>AttributeError\<close>.
\<close>

fun find_date_column_in :: "label list \<Rightarrow> pyerr + label option" where
  "find_date_column_in [] = Inr None"
| "find_date_column_in (LObj s # rest) = Inl AttributeError"
| "find_date_column_in (LStr s # rest) =
     (if list_ex (\<lambda>indicator. py_in indicator (py_lower s)) date_indicators
      then Inr (Some (LStr s))
      else find_date_column_in rest)"

definition find_date_column :: "dataframe \<Rightarrow> pyerr + label option" where
  "find_date_column df = find_date_column_in (columns df)"

definition add_year_counts :: "(int \<times> nat) list \<Rightarrow> (int \<rightharpoonup> nat) \<Rightarrow> (int \<rightharpoonup> nat)" where
  "add_year_counts year_counts m =
     fold (\<lambda>(year, n) acc. acc(year \<mapsto> (case acc year of None \<Rightarrow> 0 | Some k \<Rightarrow> k) + n))
       year_counts m"

definition dropna :: "'a option list \<Rightarrow> 'a list" where
  "dropna ys = concat (map (\<lambda>y. case y of None \<Rightarrow> [] | Some v \<Rightarrow> [v]) ys)"

text \<open>
  \<^verbatim>\<open>analyze_dates\<close> catches every exception itself. The conversion is the only step that
  can raise, and it comes before the first write, so a failure leaves the statistics as
  they were. With the label twice in the frame \<^verbatim>\<open>df[date_col]\<close> is a DataFrame, which
  the conversion refuses.
\<close>

definition analyze_dates :: "env \<Rightarrow> dataframe \<Rightarrow> label \<Rightarrow> ustr \<Rightarrow> stats \<Rightarrow> stats" where
  "analyze_dates E df date_col crime_type st =
     (case filter (\<lambda>(l, cells). l = date_col) (cols df) of
        [(l, cells)] \<Rightarrow>
          (case to_datetime_year E cells of
             Inl e \<Rightarrow> st
           | Inr years \<Rightarrow>
               (let per_crime = (case yearly_stats st crime_type of
                                   None \<Rightarrow> Map.empty | Some m \<Rightarrow> m);
                    year_counts = value_counts (dropna years)
                in st\<lparr>yearly_stats :=
                        (yearly_stats st)(crime_type \<mapsto> add_year_counts year_counts per_crime)\<rparr>))
      | _ \<Rightarrow> st)"

subsection \<open>analyze_file\<close>

text \<open>
  The whole body is inside \<^verbatim>\<open>try\<close>; the handler adds one to \<open>error_files\<close> and returns
  \<^verbatim>\<open>False\<close>, whatever had been written before.
\<close>

definition count_error :: "stats \<Rightarrow> bool \<times> stats" where
  "count_error st = (False, st\<lparr>error_files := error_files st + 1\<rparr>)"

definition analyze_loaded :: "env \<Rightarrow> ustr \<Rightarrow> dataframe \<Rightarrow> stats \<Rightarrow> bool \<times> stats" where
  "analyze_loaded E file_path df0 st =
     (let df = applymap cell_to_str df0;
          crime_type = basename (dirname file_path);
          num_records = nrows df;
          st1 = st\<lparr>records_per_file := (records_per_file st)(file_path \<mapsto> num_records),
                   total_records := total_records st + num_records\<rparr>
      in case analyze_dataframe df crime_type st1 of
           (Some e, st2) \<Rightarrow> count_error st2
         | (None, st2) \<Rightarrow>
             (case find_date_column df of
                Inl e \<Rightarrow> count_error st2
              | Inr date_col \<Rightarrow>
                  (let st3 = (case date_col of
                                None \<Rightarrow> st2
                              | Some c \<Rightarrow>
                                  if py_str_label c \<noteq> []
                                  then analyze_dates E df c crime_type st2 else st2)
                   in (True, st3\<lparr>processed_files := processed_files st3 + 1\<rparr>))))"

definition analyze_file :: "env \<Rightarrow> ustr \<Rightarrow> stats \<Rightarrow> bool \<times> stats" where
  "analyze_file E file_path st =
     (let ext = file_ext file_path;
          header_row = find_header_row E file_path None 30
      in if ext = ext_xlsx then
           (case read_excel E file_path header_row Openpyxl of
              Inl e \<Rightarrow> count_error st
            | Inr df \<Rightarrow> analyze_loaded E file_path df st)
         else if ext = ext_xls then
           (case read_excel E file_path header_row Xlrd of
              Inl e \<Rightarrow> count_error st
            | Inr df \<Rightarrow> analyze_loaded E file_path df st)
         else count_error st)"

text \<open>The loop of \<^verbatim>\<open>main\<close> over the files found, each result dropped.\<close>

definition analyze_files :: "env \<Rightarrow> ustr list \<Rightarrow> stats \<Rightarrow> stats" where
  "analyze_files E files st = fold (\<lambda>file_path s. snd (analyze_file E file_path s)) files st"

section \<open>Unification by folder\<close>

subsection \<open>The standard columns\<close>

text \<open>\<^verbatim>\<open>COLUMN_SYNONYMS\<close>, in the order of the dictionary.\<close>

definition COLUMN_SYNONYMS :: "(ustr \<times> ustr list) list" where
  "COLUMN_SYNONYMS =
     [(ustr ''DEPARTAMENTO'',
        [ustr ''DEPARTAMENTO'', ustr ''DEPTO'', ustr ''DEPTO.'', ustr ''DEPARTAMENTO*'',
         ustr ''DEPARTAMENTO '', ustr ''DEPARTAMENTO  '', ustr ''DEPARTAMENTO*'']),
      (ustr ''MUNICIPIO'',
        [ustr ''MUNICIPIO'', ustr ''MUNICIPIO*'', ustr ''MUNICIPIO '', ustr ''MUNICIPIO  '']),
      (ustr ''CODIGO DANE'',
        [ustr ''CODIGO DANE'', ustr ''COD DANE'', ustr ''DANE'', ustr ''CODIGO_DANE'',
         ustr ''CODIGO DANE '', ustr ''CODIGO_DANE '', ustr ''CODIGO DANE*'',
         ustr ''CODIGO_DANE*'']),
      (ustr ''ARMAS MEDIOS'',
        [ustr ''ARMAS MEDIOS'', ustr ''ARMA MEDIO'', ustr ''ARMA'', ustr ''MEDIO'',
         ustr ''ARMA MEDIOS'', ustr ''ARMAS_MEDIOS'', ustr ''ARMA MEDIO '',
         ustr ''ARMA MEDIO  '', ustr ''ARMA MEDIO *'']),
      (ustr ''FECHA HECHO'',
        [ustr ''FECHA HECHO'', ustr ''FECHA'', ustr ''FECHA_HECHO'', ustr ''FECHA DEL HECHO'',
         ustr ''FECHA HECHO '', ustr ''FECHA '', ustr ''FECHA  '']),
      (ustr ''GENERO'',
        [ustr ''GENERO'', ustr ''G'' @ [201] @ ustr ''NERO'', ustr ''GENERO*'',
         ustr ''GENERO '', ustr ''GENERO  '']),
      (ustr ''AGRUPA EDAD PERSONA'',
        [ustr ''AGRUPA EDAD PERSONA'', ustr ''EDAD'', ustr ''EDAD PERSONA'',
         ustr ''AGRUPA_EDAD_PERSONA'', ustr ''AGRUPA EDAD PERSONA*'',
         ustr ''*AGRUPA EDAD PERSONA'', ustr ''*AGRUPA_EDAD_PERSONA'',
         ustr ''AGRUPA EDAD PERSONA '', ustr ''AGRUPA_EDAD_PERSONA '']),
      (ustr ''CANTIDAD'',
        [ustr ''CANTIDAD'', ustr ''CANT'', ustr ''CANTIDAD*'', ustr ''CANTIDAD '',
         ustr ''CANTIDAD  ''])]"

text \<open>\<^verbatim>\<open>key_columns = list(self.COLUMN_SYNONYMS.keys())\<close>.\<close>

definition key_columns :: "ustr list" where
  "key_columns = map fst COLUMN_SYNONYMS"

subsection \<open>One file\<close>

definition normalize_columns :: "dataframe \<Rightarrow> dataframe" where
  "normalize_columns df =
     df\<lparr>cols := map (\<lambda>(l, cells). (LStr (normalize_column l), cells)) (cols df)\<rparr>"

text \<open>
  \<^verbatim>\<open>col_map\<close>: for each standard column in turn, every label whose normal form is the
  normal form of one of its synonyms is sent to it; a later assignment replaces an
  earlier one.
\<close>

definition col_map_of :: "label list \<Rightarrow> (label \<rightharpoonup> ustr)" where
  "col_map_of labels =
     fold (\<lambda>(std_col, synonyms) m.
             fold (\<lambda>l acc. if normalize_column l \<in> set (map (\<lambda>s. normalize_column (LStr s)) synonyms)
                            then acc(l \<mapsto> std_col) else acc)
               labels m)
       COLUMN_SYNONYMS Map.empty"

text \<open>\<^verbatim>\<open>df.rename(columns=col_map)\<close>.\<close>

definition rename_columns :: "(label \<rightharpoonup> ustr) \<Rightarrow> dataframe \<Rightarrow> dataframe" where
  "rename_columns col_map df =
     df\<lparr>cols := map (\<lambda>(l, cells). (case col_map l of None \<Rightarrow> l | Some s \<Rightarrow> LStr s, cells))
                     (cols df)\<rparr>"

definition map_columns_to_standard :: "dataframe \<Rightarrow> dataframe" where
  "map_columns_to_standard df = rename_columns (col_map_of (columns df)) df"

text \<open>
  The labels collected for removal: those with the normal form of a standard column
  that are not that column. \<^verbatim>\<open>df.drop(columns=...)\<close> removes every column so labelled.
\<close>

definition cols_to_drop :: "dataframe \<Rightarrow> label list" where
  "cols_to_drop df =
     concat (map (\<lambda>col.
        concat (map (\<lambda>std_col.
           if normalize_column col = normalize_column (LStr std_col) \<and> col \<noteq> LStr std_col
           then [col] else [])
          key_columns))
       (columns df))"

definition drop_columns :: "label list \<Rightarrow> dataframe \<Rightarrow> dataframe" where
  "drop_columns labels df = df\<lparr>cols := filter (\<lambda>(l, cells). l \<notin> set labels) (cols df)\<rparr>"

text \<open>What the loop body does to a frame once it is read.\<close>

definition standardize :: "dataframe \<Rightarrow> dataframe" where
  "standardize df0 =
     (let df1 = applymap cell_to_str df0;
          df2 = normalize_columns df1;
          df3 = map_columns_to_standard df2
      in drop_columns (cols_to_drop df3) df3)"

text \<open>
  One pass of the loop over the files of a folder: the frame appended to \<^verbatim>\<open>dfs\<close>, or
  nothing when reading raised (the handler prints and goes on) or the extension is
  neither of the two.
\<close>

definition load_fragment :: "env \<Rightarrow> ustr \<Rightarrow> dataframe option" where
  "load_fragment E file_path =
     (let ext = file_ext file_path;
          header_row = find_header_row E file_path None 30
      in if ext = ext_xlsx then
           (case read_excel E file_path header_row Openpyxl of
              Inl e \<Rightarrow> None
            | Inr df \<Rightarrow> Some (standardize df))
         else if ext = ext_xls then
           (case read_excel E file_path header_row Xlrd of
              Inl e \<Rightarrow> None
            | Inr df \<Rightarrow> Some (standardize df))
         else None)"

definition drop_none :: "'a option list \<Rightarrow> 'a list" where
  "drop_none ys = concat (map (\<lambda>y. case y of None \<Rightarrow> [] | Some v \<Rightarrow> [v]) ys)"

text \<open>The files of a folder: those of \<^verbatim>\<open>os.walk\<close> whose name ends in one of the two suffixes.\<close>

definition folder_files :: "env \<Rightarrow> ustr \<Rightarrow> ustr \<Rightarrow> ustr list" where
  "folder_files E data_dir folder =
     map (\<lambda>(root, file). path_join root file)
       (filter (\<lambda>(root, file). py_endswith file [ext_xlsx, ext_xls])
          (walk E (path_join data_dir folder)))"

subsection \<open>pandas on whole frames\<close>

text \<open>
  \<^verbatim>\<open>pd.concat(dfs, ignore_index=True, sort=False)\<close>. No frame: \<^verbatim>\<open>ValueError\<close>. Frames with the
  same labels are stacked position by position. Otherwise the result has the labels of
  all frames in the order of first appearance, each frame giving its column or, where it
  has none, \<^verbatim>\<open>NaN\<close> for each of its rows; that needs labels that do not repeat, and
  pandas raises \<^verbatim>\<open>InvalidIndexError\<close> when a frame has a label twice.
\<close>

definition stack_by_position :: "dataframe list \<Rightarrow> label list \<Rightarrow> (label \<times> cell list) list" where
  "stack_by_position dfs labels =
     map (\<lambda>i. (labels ! i, concat (map (\<lambda>df. snd (cols df ! i)) dfs))) [0..<length labels]"

definition column_or_nan :: "label \<Rightarrow> dataframe \<Rightarrow> cell list" where
  "column_or_nan l df =
     (case map_of (cols df) l of Some cells \<Rightarrow> cells | None \<Rightarrow> replicate (nrows df) NaN)"

definition stack_by_label :: "dataframe list \<Rightarrow> (label \<times> cell list) list" where
  "stack_by_label dfs =
     map (\<lambda>l. (l, concat (map (column_or_nan l) dfs))) (first_seen (concat (map columns dfs)))"

fun concat_frames :: "dataframe list \<Rightarrow> pyerr + dataframe" where
  "concat_frames [] = Inl ValueError"
| "concat_frames (d # ds) =
     (if list_all (\<lambda>df. columns df = columns d) ds
      then Inr \<lparr>nrows = sum_list (map nrows (d # ds)),
                cols = stack_by_position (d # ds) (columns d)\<rparr>
      else if list_ex (\<lambda>df. \<not> distinct (columns df)) (d # ds) then Inl InvalidIndexError
      else Inr \<lparr>nrows = sum_list (map nrows (d # ds)), cols = stack_by_label (d # ds)\<rparr>)"

text \<open>\<^verbatim>\<open>df_unified[col] = ''\<close> for each key column that is not a label of the frame.\<close>

definition add_missing_columns :: "ustr list \<Rightarrow> dataframe \<Rightarrow> dataframe" where
  "add_missing_columns keys df =
     fold (\<lambda>col d. if LStr col \<notin> set (columns d)
                    then d\<lparr>cols := cols d @ [(LStr col, replicate (nrows d) (Str []))]\<rparr>
                    else d)
       keys df"

text \<open>
  \<^verbatim>\<open>df[keys]\<close>: for each key in turn every column so labelled; \<^verbatim>\<open>KeyError\<close> when a key
  labels none.
\<close>

definition select_columns :: "dataframe \<Rightarrow> ustr list \<Rightarrow> pyerr + dataframe" where
  "select_columns df keys =
     (if list_all (\<lambda>k. LStr k \<in> set (columns df)) keys
      then Inr (df\<lparr>cols := concat (map (\<lambda>k. filter (\<lambda>(l, cells). l = LStr k) (cols df)) keys)\<rparr>)
      else Inl KeyError)"

subsection \<open>The unified table\<close>

text \<open>
  The step after the loop over the files: \<^verbatim>\<open>if dfs:\<close> the frames are concatenated, the
  absent key columns added and the key columns selected; \<^verbatim>\<open>else:\<close> the table is
  \<^verbatim>\<open>pd.DataFrame()\<close>. Nothing here is inside \<^verbatim>\<open>try\<close>.
\<close>

definition unify_frames :: "dataframe list \<Rightarrow> pyerr + dataframe" where
  "unify_frames dfs =
     (if dfs \<noteq> [] then
        (case concat_frames dfs of
           Inl e \<Rightarrow> Inl e
         | Inr df_unified \<Rightarrow> select_columns (add_missing_columns key_columns df_unified) key_columns)
      else Inr empty_frame)"

definition unify_folder :: "env \<Rightarrow> ustr \<Rightarrow> ustr \<Rightarrow> pyerr + dataframe" where
  "unify_folder E data_dir folder =
     unify_frames (drop_none (map (load_fragment E) (folder_files E data_dir folder)))"

section \<open>deep_exploration\<close>

text \<open>
  The report of one unified table. Dictionaries are lists of pairs in insertion order.
  The entry \<^verbatim>\<open>tipos\<close> (the storage type of each column) is left out of the record,
  but not its effect: \<^verbatim>\<open>df[col]\<close> is the column labelled \<open>col\<close> when that label occurs
  once, and a DataFrame when it occurs more often, and \<^verbatim>\<open>df[col].dtype\<close> then raises
  \<^verbatim>\<open>AttributeError\<close>.
\<close>

record exploration =
  shape :: "nat \<times> nat"
  columnas :: "label list"
  nulos_por_columna :: "(ustr \<times> nat) list"
  faltantes_por_columna :: "(ustr \<times> nat) list"
  conteo_por_columna :: "(ustr \<times> nat) list"
  unicos_por_columna :: "(ustr \<times> nat) list"
  top_valores :: "(ustr \<times> (cell \<times> nat) list) list"
  distribucion_anio :: "(cell \<times> nat) list option"

text \<open>\<^verbatim>\<open>{col: f(df[col]) for col in key_columns if col in df.columns}\<close>.\<close>

definition per_column :: "(cell list \<Rightarrow> 'a) \<Rightarrow> dataframe \<Rightarrow> ustr list \<Rightarrow> (ustr \<times> 'a) list" where
  "per_column f df keys =
     concat (map (\<lambda>col. case map_of (cols df) (LStr col) of
                           Some cells \<Rightarrow> [(col, f cells)]
                         | None \<Rightarrow> [])
               keys)"

text \<open>\<^verbatim>\<open>value_counts(dropna=False).head(5).to_dict()\<close>.\<close>

definition top5 :: "cell list \<Rightarrow> (cell \<times> nat) list" where
  "top5 cells = take 5 (value_counts cells)"

text \<open>
  \<^verbatim>\<open>sort_index()\<close> on the counted values: the strings in rising order, compared code point
  by code point as Python compares strings, and the missing values after them.
\<close>

fun is_Str :: "cell \<Rightarrow> bool" where
  "is_Str (Str s) = True"
| "is_Str c = False"

definition sort_index :: "(cell \<times> nat) list \<Rightarrow> (cell \<times> nat) list" where
  "sort_index vc =
     sort_key (\<lambda>p. py_str_cell (fst p)) (filter (\<lambda>p. is_Str (fst p)) vc)
     @ filter (\<lambda>p. \<not> is_Str (fst p)) vc"

text \<open>
  \<^verbatim>\<open>year_col\<close>: the first key column whose name contains the Spanish word for year in
  capitals (the code points 65, 209, 79: A, N with tilde, O) or \<^verbatim>\<open>YEAR\<close>, if there is one.
\<close>

definition year_col_of :: "ustr list \<Rightarrow> ustr option" where
  "year_col_of keys = find (\<lambda>c. py_in [65, 209, 79] c \<or> py_in (ustr ''YEAR'') c) keys"

definition year_distribution :: "dataframe \<Rightarrow> ustr list \<Rightarrow> (cell \<times> nat) list option" where
  "year_distribution df keys =
     (case year_col_of keys of
        None \<Rightarrow> None
      | Some year_col \<Rightarrow>
          if year_col \<noteq> [] then
            (case map_of (cols df) (LStr year_col) of
               Some cells \<Rightarrow> Some (sort_index (value_counts cells))
             | None \<Rightarrow> None)
          else None)"

definition deep_exploration :: "dataframe \<Rightarrow> ustr list \<Rightarrow> pyerr + exploration" where
  "deep_exploration df keys =
     (if list_ex (\<lambda>col. count_list (columns df) (LStr col) > 1) keys then Inl AttributeError
      else Inr
        \<lparr>shape = (nrows df, length (cols df)),
         columnas = columns df,
         nulos_por_columna = per_column null_count df keys,
         faltantes_por_columna =
           per_column (\<lambda>cells. length (filter (\<lambda>x. x = Str []) cells)) df keys,
         conteo_por_columna =
           per_column (\<lambda>cells. length (filter (\<lambda>x. \<not> is_null x) cells)) df keys,
         unicos_por_columna = per_column (\<lambda>cells. length (first_seen cells)) df keys,
         top_valores = per_column top5 df keys,
         distribucion_anio = year_distribution df keys\<rparr>)"

text \<open>
  The body of \<^verbatim>\<open>unify_and_explore_by_folder\<close> for one folder: the unified table and its
  report, \<open>None\<close> standing for the string \<^verbatim>\<open>"Sin datos"\<close>.
\<close>

definition unify_and_explore :: "env \<Rightarrow> ustr \<Rightarrow> ustr \<Rightarrow> pyerr + dataframe \<times> exploration option" where
  "unify_and_explore E data_dir folder =
     (let dfs = drop_none (map (load_fragment E) (folder_files E data_dir folder))
      in case unify_frames dfs of
           Inl e \<Rightarrow> Inl e
         | Inr df_unified \<Rightarrow>
             if dfs \<noteq> [] then
               (case deep_exploration df_unified key_columns of
                  Inl e \<Rightarrow> Inl e
                | Inr report \<Rightarrow> Inr (df_unified, Some report))
             else Inr (df_unified, None))"

section \<open>Words for the statements\<close>

text \<open>
  A file is supported when its extension is one of the two; \<open>decoded\<close> is the call of
  \<^verbatim>\<open>pd.read_excel\<close> that \<^verbatim>\<open>analyze_file\<close> and the unification loop make for it; \<open>sheet_of\<close>
  is the sheet that \<^verbatim>\<open>find_header_row\<close> opens for it.
\<close>

definition supported :: "ustr \<Rightarrow> bool" where
  "supported file_path = (file_ext file_path = ext_xlsx \<or> file_ext file_path = ext_xls)"

definition decoded :: "env \<Rightarrow> ustr \<Rightarrow> pyerr + dataframe" where
  "decoded E file_path =
     read_excel E file_path (find_header_row E file_path None 30)
       (if file_ext file_path = ext_xlsx then Openpyxl else Xlrd)"

definition sheet_of :: "env \<Rightarrow> ustr \<Rightarrow> pyerr + xcell list list" where
  "sheet_of E file_path =
     (if file_ext file_path = ext_xlsx then load_workbook E file_path
      else open_workbook E file_path)"

fun is_LStr :: "label \<Rightarrow> bool" where
  "is_LStr (LStr s) = True"
| "is_LStr (LObj s) = False"

text \<open>A frame whose labels are strings and do not repeat.\<close>

definition plain_labels :: "dataframe \<Rightarrow> bool" where
  "plain_labels df = (distinct (columns df) \<and> list_all is_LStr (columns df))"

text \<open>
  The standard column that the synonym table gives a label: the last one, in the order of
  the table, with a synonym of the same normal form.
\<close>

definition standard_name :: "label \<Rightarrow> ustr option" where
  "standard_name l =
     (case filter (\<lambda>(std_col, synonyms).
                     normalize_column l \<in> set (map (\<lambda>s. normalize_column (LStr s)) synonyms))
             COLUMN_SYNONYMS of
        [] \<Rightarrow> None
      | ms \<Rightarrow> Some (fst (last ms)))"

text \<open>The label that a column of a file carries in the fragment of that file.\<close>

definition fragment_label :: "label \<Rightarrow> label" where
  "fragment_label l =
     (case standard_name (LStr (normalize_column l)) of
        None \<Rightarrow> LStr (normalize_column l)
      | Some s \<Rightarrow> LStr s)"

text \<open>The position at which a value first occurs in a list.\<close>

definition first_index :: "'a list \<Rightarrow> 'a \<Rightarrow> nat" where
  "first_index xs v = length (takeWhile (\<lambda>x. x \<noteq> v) xs)"

text \<open>
  The order of a frequency table: the higher count first and, among equal counts, the
  value that occurs first in the column.
\<close>

definition ranks_before :: "'a list \<Rightarrow> 'a \<times> nat \<Rightarrow> 'a \<times> nat \<Rightarrow> bool" where
  "ranks_before xs p q =
     (snd p > snd q \<or> (snd p = snd q \<and> first_index xs (fst p) < first_index xs (fst q)))"

text \<open>The order of \<^verbatim>\<open>sort_index\<close> on cells: strings as Python compares them, missing values last.\<close>

fun cell_le :: "cell \<Rightarrow> cell \<Rightarrow> bool" where
  "cell_le (Str a) (Str b) = (a \<le> b)"
| "cell_le (Str a) c = True"
| "cell_le c (Str b) = False"
| "cell_le c d = True"

section \<open>A small data directory\<close>

text \<open>
  Five files of one category folder, used to run the model: a workbook with its header
  in the third row and an empty date cell, a file that cannot be opened, an old-format
  workbook with the header in the first row, a workbook without any header keyword whose
  eleventh row holds a number, and a text file.
\<close>

definition f_2020 :: ustr where
  "f_2020 = ustr ''Data/HURTO/hurto_2020.xlsx''"

definition f_broken :: ustr where
  "f_broken = ustr ''Data/HURTO/roto.xlsx''"

definition f_2021 :: ustr where
  "f_2021 = ustr ''Data/HURTO/hurto_2021.xls''"

definition f_numeric :: ustr where
  "f_numeric = ustr ''Data/HURTO/sin_titulos.xlsx''"

definition f_csv :: ustr where
  "f_csv = ustr ''Data/HURTO/notas.csv''"

definition sheet_2020 :: "xcell list list" where
  "sheet_2020 =
     [[Some (ustr ''Policia Nacional''), None, None],
      [None, None, None],
      [Some (ustr '' departamento ''), Some (ustr ''Fecha hecho''), Some (ustr ''Cantidad'')],
      [Some (ustr ''ANTIOQUIA''), Some (ustr ''2020-01-05''), Some (ustr ''3'')],
      [Some (ustr ''CALDAS''), None, Some (ustr ''1'')]]"

definition frame_2020 :: dataframe where
  "frame_2020 =
     \<lparr>nrows = 2,
      cols = [(LStr (ustr '' departamento ''), [Str (ustr ''ANTIOQUIA''), Str (ustr ''CALDAS'')]),
              (LStr (ustr ''Fecha hecho''), [Str (ustr ''2020-01-05''), NaN]),
              (LStr (ustr ''Cantidad''), [Str (ustr ''3''), Str (ustr ''1'')])]\<rparr>"

definition sheet_2021 :: "xcell list list" where
  "sheet_2021 =
     [[Some (ustr ''MUNICIPIO''), Some (ustr ''CANT'')],
      [Some (ustr ''CALI''), Some (ustr ''2.0'')]]"

definition frame_2021 :: dataframe where
  "frame_2021 =
     \<lparr>nrows = 1,
      cols = [(LStr (ustr ''MUNICIPIO''), [Str (ustr ''CALI'')]),
              (LStr (ustr ''CANT''), [Str (ustr ''2.0'')])]\<rparr>"

definition row_numeric :: "xcell list" where
  "row_numeric = [Some (ustr ''ANTIOQUIA''), Some (ustr ''3'')]"

definition sheet_numeric :: "xcell list list" where
  "sheet_numeric =
     [row_numeric, row_numeric, row_numeric, row_numeric, row_numeric, row_numeric,
      row_numeric, row_numeric, row_numeric, row_numeric, row_numeric, row_numeric,
      row_numeric]"

definition frame_numeric :: dataframe where
  "frame_numeric =
     \<lparr>nrows = 2,
      cols = [(LStr (ustr ''ANTIOQUIA''), [Str (ustr ''ANTIOQUIA''), Str (ustr ''ANTIOQUIA'')]),
              (LObj (ustr ''3''), [Str (ustr ''3''), Str (ustr ''3'')])]\<rparr>"

definition demo_year :: "cell \<Rightarrow> int option" where
  "demo_year x =
     (if x = Str (ustr ''2020-01-05'') then Some 2020
      else if x = Str (ustr ''2021-03-03'') then Some 2021
      else None)"

definition demo_env :: env where
  "demo_env =
     \<lparr>load_workbook = (\<lambda>p. if p = f_2020 then Inr sheet_2020
                            else if p = f_numeric then Inr sheet_numeric
                            else Inl OSError),
      open_workbook = (\<lambda>p. if p = f_2021 then Inr sheet_2021 else Inl OSError),
      read_excel = (\<lambda>p h e. if p = f_2020 \<and> h = 2 \<and> e = Openpyxl then Inr frame_2020
                             else if p = f_2021 \<and> h = 0 \<and> e = Xlrd then Inr frame_2021
                             else if p = f_numeric \<and> h = 10 \<and> e = Openpyxl then Inr frame_numeric
                             else Inl ValueError),
      to_datetime_year = (\<lambda>cells. Inr (map demo_year cells)),
      walk = (\<lambda>folder_path. if folder_path = ustr ''Data/HURTO''
                              then [(ustr ''Data/HURTO'', ustr ''hurto_2020.xlsx''),
                                    (ustr ''Data/HURTO'', ustr ''roto.xlsx''),
                                    (ustr ''Data/HURTO'', ustr ''hurto_2021.xls''),
                                    (ustr ''Data/HURTO'', ustr ''notas.csv'')]
                              else [])\<rparr>"

text \<open>A frame read from a file whose header names the weapon and the means in two columns.\<close>

definition frame_two_weapons :: dataframe where
  "frame_two_weapons =
     \<lparr>nrows = 1,
      cols = [(LStr (ustr ''Arma''), [Str (ustr ''CUCHILLO'')]),
              (LStr (ustr ''Medio''), [Str (ustr ''A PIE'')])]\<rparr>"

text \<open>The same frame after the loop body: both columns carry the one standard name.\<close>

definition fragment_two_weapons :: dataframe where
  "fragment_two_weapons =
     \<lparr>nrows = 1,
      cols = [(LStr (ustr ''ARMAS MEDIOS''), [Str (ustr ''CUCHILLO'')]),
              (LStr (ustr ''ARMAS MEDIOS''), [Str (ustr ''A PIE'')])]\<rparr>"

text \<open>The two readable example files after the loop body.\<close>

definition fragment_2020 :: dataframe where
  "fragment_2020 =
     \<lparr>nrows = 2,
      cols = [(LStr (ustr ''DEPARTAMENTO''), [Str (ustr ''ANTIOQUIA''), Str (ustr ''CALDAS'')]),
              (LStr (ustr ''FECHA HECHO''), [Str (ustr ''2020-01-05''), Str (ustr ''nan'')]),
              (LStr (ustr ''CANTIDAD''), [Str (ustr ''3''), Str (ustr ''1'')])]\<rparr>"

definition fragment_2021 :: dataframe where
  "fragment_2021 =
     \<lparr>nrows = 1,
      cols = [(LStr (ustr ''MUNICIPIO''), [Str (ustr ''CALI'')]),
              (LStr (ustr ''CANTIDAD''), [Str (ustr ''2.0'')])]\<rparr>"

text \<open>
  Two fragments with one column each, and the tables that unification makes of them: a
  gender column with the values X, X, Y, Y, Z, and a date column with three dates.
\<close>

definition frame_genders :: dataframe where
  "frame_genders =
     \<lparr>nrows = 5,
      cols = [(LStr (ustr ''GENERO''),
               [Str (ustr ''MASCULINO''), Str (ustr ''MASCULINO''), Str (ustr ''FEMENINO''),
                Str (ustr ''FEMENINO''), Str (ustr ''NO REPORTA'')])]\<rparr>"

definition blank5 :: "cell list" where
  "blank5 = [Str [], Str [], Str [], Str [], Str []]"

definition table_genders :: dataframe where
  "table_genders =
     \<lparr>nrows = 5,
      cols = [(LStr (ustr ''DEPARTAMENTO''), blank5),
              (LStr (ustr ''MUNICIPIO''), blank5),
              (LStr (ustr ''CODIGO DANE''), blank5),
              (LStr (ustr ''ARMAS MEDIOS''), blank5),
              (LStr (ustr ''FECHA HECHO''), blank5),
              (LStr (ustr ''GENERO''),
               [Str (ustr ''MASCULINO''), Str (ustr ''MASCULINO''), Str (ustr ''FEMENINO''),
                Str (ustr ''FEMENINO''), Str (ustr ''NO REPORTA'')]),
              (LStr (ustr ''AGRUPA EDAD PERSONA''), blank5),
              (LStr (ustr ''CANTIDAD''), blank5)]\<rparr>"

definition frame_dates :: dataframe where
  "frame_dates =
     \<lparr>nrows = 3,
      cols = [(LStr (ustr ''FECHA HECHO''),
               [Str (ustr ''2020-01-05''), Str (ustr ''2020-06-01''), Str (ustr ''2021-03-03'')])]\<rparr>"

definition blank3 :: "cell list" where
  "blank3 = [Str [], Str [], Str []]"

definition table_dates :: dataframe where
  "table_dates =
     \<lparr>nrows = 3,
      cols = [(LStr (ustr ''DEPARTAMENTO''), blank3),
              (LStr (ustr ''MUNICIPIO''), blank3),
              (LStr (ustr ''CODIGO DANE''), blank3),
              (LStr (ustr ''ARMAS MEDIOS''), blank3),
              (LStr (ustr ''FECHA HECHO''),
               [Str (ustr ''2020-01-05''), Str (ustr ''2020-06-01''), Str (ustr ''2021-03-03'')]),
              (LStr (ustr ''GENERO''), blank3),
              (LStr (ustr ''AGRUPA EDAD PERSONA''), blank3),
              (LStr (ustr ''CANTIDAD''), blank3)]\<rparr>"

text \<open>A table with a column named for the year, as no standard column is.\<close>

definition table_years :: dataframe where
  "table_years =
     \<lparr>nrows = 4,
      cols = [(LStr (ustr ''YEAR''),
               [Str (ustr ''2021''), Str (ustr ''2020''), NaN, Str (ustr ''2020'')])]\<rparr>"

section \<open>Column names: results\<close>

text \<open>The four assignments of \<^verbatim>\<open>normalize_column\<close> as one expression.\<close>

lemma normalize_column_steps:
  "normalize_column col =
     py_strip_chars [42] (py_join [32] (py_split (filter (\<lambda>c. \<not> is_Mn c)
       (nfd (py_replace 95 32 (py_upper (py_str_label col)))))))"
  by (simp add: normalize_column_def)

text \<open>
  Rules that compute the string functions on literals. The tables are unfolded at numerals
  only, so that nothing is unfolded about a code point that is not known.
\<close>

lemmas char_tables =
  upper_cp_def [of "numeral n" for n] lower_cp_def [of "numeral n" for n]
  nfd_cp_def [of "numeral n" for n] is_Mn_def [of "numeral n" for n]
  py_isspace_def [of "numeral n" for n] nfd_upper_table_def

lemmas str_eval = ustr_def py_upper_def py_lower_def py_replace_def nfd_def py_split_def
  py_strip_def py_strip_chars_def strip_where_def char_tables

lemma normalize_depto_marked:
  "normalize_column (LStr (ustr ''  Depto_*'')) = ustr ''DEPTO ''"
  by (simp add: normalize_column_steps str_eval)

lemma normalize_depto_plain:
  "normalize_column (LStr (ustr ''DEPTO'')) = ustr ''DEPTO''"
  by (simp add: normalize_column_steps str_eval)

lemma normalize_depto_trailing:
  "normalize_column (LStr (ustr ''DEPTO '')) = ustr ''DEPTO''"
  by (simp add: normalize_column_steps str_eval)

lemma normalize_depto_accent:
  "normalize_column (LStr (ustr ''D'' @ [233] @ ustr ''pto '')) = ustr ''DEPTO''"
  by (simp add: normalize_column_steps str_eval)

text \<open>
  C4 (idempotence of the column normalizer). On the label \<^verbatim>\<open>"  Depto_*"\<close> the code is
  not idempotent: the asterisk is stripped after the whitespace has been collapsed, so
  the space that stood before it is left at the end, and a second pass removes it.
  The first pass gives \<^verbatim>\<open>"DEPTO "\<close>, the second \<^verbatim>\<open>"DEPTO"\<close>.
\<close>

theorem normalize_column_not_idempotent:
  "normalize_column (LStr (normalize_column (LStr (ustr ''  Depto_*''))))
     \<noteq> normalize_column (LStr (ustr ''  Depto_*''))"
  by (simp add: normalize_depto_marked normalize_depto_trailing) (simp add: ustr_def)

text \<open>
  C7 (insensitivity to accents, case, underscores, whitespace and asterisks). Of the
  three labels of the claim, \<^verbatim>\<open>"DEPTO"\<close> and the accented one (D, e with acute accent, p,
  t, o, space; the accented letter is code point 233) are normalized to \<^verbatim>\<open>"DEPTO"\<close>, but
  \<^verbatim>\<open>"  Depto_*"\<close> is normalized to \<^verbatim>\<open>"DEPTO "\<close>, with a space at the end: the three
  results are not the same string.
\<close>

theorem normalize_column_depto_variants:
  "normalize_column (LStr (ustr ''  Depto_*'')) = ustr ''DEPTO ''
   \<and> normalize_column (LStr (ustr ''DEPTO'')) = ustr ''DEPTO''
   \<and> normalize_column (LStr (ustr ''D'' @ [233] @ ustr ''pto '')) = ustr ''DEPTO''
   \<and> normalize_column (LStr (ustr ''  Depto_*'')) \<noteq> normalize_column (LStr (ustr ''DEPTO''))"
proof (intro conjI)
  show "normalize_column (LStr (ustr ''  Depto_*'')) = ustr ''DEPTO ''"
    by (rule normalize_depto_marked)
  show "normalize_column (LStr (ustr ''DEPTO'')) = ustr ''DEPTO''"
    by (rule normalize_depto_plain)
  show "normalize_column (LStr (ustr ''D'' @ [233] @ ustr ''pto '')) = ustr ''DEPTO''"
    by (rule normalize_depto_accent)
  show "normalize_column (LStr (ustr ''  Depto_*'')) \<noteq> normalize_column (LStr (ustr ''DEPTO''))"
    unfolding normalize_depto_marked normalize_depto_plain by (simp add: ustr_def)
qed

section \<open>Cells as strings\<close>

lemma cell_to_str_is_Str: "is_Str (cell_to_str x)"
  by (simp add: cell_to_str_def)

text \<open>After \<^verbatim>\<open>applymap\<close> every cell is a string.\<close>

lemma applymap_all_strings:
  "(l, cells) \<in> set (cols (applymap cell_to_str df)) \<Longrightarrow> x \<in> set cells \<Longrightarrow> is_Str x"
  by (auto simp: applymap_def cell_to_str_is_Str)

text \<open>
  C3 (every cell a string, every missing cell the empty string). A missing cell reaches
  \<^verbatim>\<open>applymap\<close> as \<^verbatim>\<open>NaN\<close>, which is not \<^verbatim>\<open>None\<close>: the function turns it into the text
  \<^verbatim>\<open>"nan"\<close>, not into the empty string. In the first example file the empty date cell of
  the second record becomes \<^verbatim>\<open>"nan"\<close>.
\<close>

theorem applymap_missing_cell_becomes_nan_text:
  "cell_to_str NaN = Str (ustr ''nan'')
   \<and> cell_to_str NaN \<noteq> Str []
   \<and> cols (applymap cell_to_str frame_2020) =
       [(LStr (ustr '' departamento ''), [Str (ustr ''ANTIOQUIA''), Str (ustr ''CALDAS'')]),
        (LStr (ustr ''Fecha hecho''), [Str (ustr ''2020-01-05''), Str (ustr ''nan'')]),
        (LStr (ustr ''Cantidad''), [Str (ustr ''3''), Str (ustr ''1'')])]"
  by (simp add: cell_to_str_def applymap_def frame_2020_def ustr_def)

section \<open>Per-file analysis: results\<close>

lemma column_loop_counters:
  "column_loop labels crime cs st = (r, st') \<Longrightarrow>
     processed_files st' = processed_files st \<and> error_files st' = error_files st
     \<and> total_records st' = total_records st \<and> records_per_file st' = records_per_file st
     \<and> yearly_stats st' = yearly_stats st"
proof (induction labels crime cs st rule: column_loop.induct)
  case (1 all_labels crime_type st)
  then show ?case by simp
next
  case (2 all_labels crime_type col cells rest st)
  then show ?case
    by (auto simp: Let_def split: if_splits)
qed

lemma analyze_dataframe_counters:
  "analyze_dataframe df crime st = (r, st') \<Longrightarrow>
     processed_files st' = processed_files st \<and> error_files st' = error_files st
     \<and> total_records st' = total_records st \<and> records_per_file st' = records_per_file st
     \<and> yearly_stats st' = yearly_stats st"
  by (auto simp: analyze_dataframe_def Let_def split: prod.splits option.splits if_splits
           dest!: column_loop_counters)

lemma analyze_dates_counters:
  "processed_files (analyze_dates E df c crime st) = processed_files st
   \<and> error_files (analyze_dates E df c crime st) = error_files st
   \<and> total_records (analyze_dates E df c crime st) = total_records st
   \<and> records_per_file (analyze_dates E df c crime st) = records_per_file st
   \<and> column_stats (analyze_dates E df c crime st) = column_stats st"
  by (simp add: analyze_dates_def Let_def split: list.splits prod.splits sum.splits)

text \<open>
  Once the frame is read, the record count of the file is stored whatever follows, and
  exactly one of the two counters moves.
\<close>

lemma analyze_loaded_outcome:
  "analyze_loaded E p df st = (ok, st') \<Longrightarrow>
     records_per_file st' = (records_per_file st)(p \<mapsto> nrows df)
     \<and> total_records st' = total_records st + nrows df
     \<and> (if ok then processed_files st' = processed_files st + 1 \<and> error_files st' = error_files st
         else error_files st' = error_files st + 1 \<and> processed_files st' = processed_files st)"
  by (auto simp: analyze_loaded_def Let_def count_error_def analyze_dates_counters applymap_def
           split: prod.splits option.splits sum.splits if_splits
           dest!: analyze_dataframe_counters)

lemma ext_xlsx_neq_xls: "ext_xlsx \<noteq> ext_xls"
  by (simp add: ext_xlsx_def ext_xls_def ustr_def)

lemma analyze_file_unsupported:
  "\<not> supported p \<Longrightarrow> analyze_file E p st = count_error st"
  by (simp add: analyze_file_def supported_def Let_def)

lemma analyze_file_decoded:
  "supported p \<Longrightarrow> decoded E p = Inr df \<Longrightarrow> analyze_file E p st = analyze_loaded E p df st"
  by (auto simp: analyze_file_def supported_def decoded_def Let_def ext_xlsx_neq_xls)

lemma analyze_file_undecoded:
  "supported p \<Longrightarrow> decoded E p = Inl e \<Longrightarrow> analyze_file E p st = count_error st"
  by (auto simp: analyze_file_def supported_def decoded_def Let_def ext_xlsx_neq_xls)

lemma distinct_count_list_le1: "distinct xs \<Longrightarrow> count_list xs x \<le> 1"
  by (induction xs) auto

lemma column_loop_distinct:
  "distinct labels \<Longrightarrow> fst (column_loop labels crime cs st) = None"
proof (induction labels crime cs st rule: column_loop.induct)
  case (1 all_labels crime_type st)
  show ?case by simp
next
  case (2 all_labels crime_type col cells rest st)
  from 2(3) have "\<not> count_list all_labels col > 1"
    using distinct_count_list_le1[of all_labels col] by simp
  with 2 show ?case by (simp add: Let_def)
qed

lemma analyze_dataframe_distinct:
  "distinct (columns df) \<Longrightarrow> fst (analyze_dataframe df crime st) = None"
proof -
  assume d: "distinct (columns df)"
  let ?st1 = "if column_stats st crime = None
              then st\<lparr>column_stats := (column_stats st)(crime \<mapsto> Map.empty)\<rparr> else st"
  obtain r st2 where c: "column_loop (columns df) crime (cols df) ?st1 = (r, st2)"
    by (cases "column_loop (columns df) crime (cols df) ?st1")
  with column_loop_distinct[OF d, of crime "cols df" ?st1] have "r = None" by simp
  with c show ?thesis by (simp add: analyze_dataframe_def Let_def)
qed

lemma find_date_column_in_strings:
  "list_all is_LStr ls \<Longrightarrow> \<exists>r. find_date_column_in ls = Inr r"
proof (induction ls)
  case Nil
  show ?case by simp
next
  case (Cons l ls)
  then show ?case by (cases l) auto
qed

lemma columns_applymap: "columns (applymap f df) = columns df"
  by (simp add: columns_def applymap_def comp_def case_prod_unfold)

lemma nrows_applymap: "nrows (applymap f df) = nrows df"
  by (simp add: applymap_def)

lemma analyze_loaded_plain:
  assumes "plain_labels df"
  shows "fst (analyze_loaded E p df st)"
proof -
  let ?df = "applymap cell_to_str df"
  let ?crime = "basename (dirname p)"
  let ?st1 = "st\<lparr>records_per_file := (records_per_file st)(p \<mapsto> nrows ?df),
                  total_records := total_records st + nrows ?df\<rparr>"
  from assms have d: "distinct (columns ?df)" and s: "list_all is_LStr (columns ?df)"
    by (simp_all add: plain_labels_def columns_applymap)
  obtain st2 where a: "analyze_dataframe ?df ?crime ?st1 = (None, st2)"
    using analyze_dataframe_distinct[OF d, of ?crime ?st1]
    by (cases "analyze_dataframe ?df ?crime ?st1") auto
  from find_date_column_in_strings[OF s] obtain dc where f: "find_date_column ?df = Inr dc"
    by (auto simp: find_date_column_def)
  from a f show ?thesis
    by (simp add: analyze_loaded_def Let_def)
qed

section \<open>Header detection: results\<close>

lemma row_matches_iff:
  "row_matches kws row \<longleftrightarrow> (\<exists>cell \<in> set (row_str row). \<exists>kw \<in> set kws. sublist kw cell)"
  by (auto simp: row_matches_def list_ex_iff py_in_def)

lemma scan_rows_None:
  "scan_rows kws i rows = None \<longleftrightarrow> (\<forall>j < length rows. \<not> row_matches kws (rows ! j))"
proof (induction rows arbitrary: i)
  case Nil
  show ?case by simp
next
  case (Cons row rest)
  show ?case
  proof (cases "row_matches kws row")
    case True
    then show ?thesis by auto
  next
    case False
    have "(\<forall>j < length (row # rest). \<not> row_matches kws ((row # rest) ! j))
          \<longleftrightarrow> (\<forall>j < length rest. \<not> row_matches kws (rest ! j))"
      using False by (auto simp: nth_Cons split: nat.splits)
    with False Cons.IH[of "Suc i"] show ?thesis by simp
  qed
qed

lemma scan_rows_Some:
  "scan_rows kws i rows = Some r \<Longrightarrow>
     i \<le> r \<and> r - i < length rows \<and> row_matches kws (rows ! (r - i))
     \<and> (\<forall>j < r - i. \<not> row_matches kws (rows ! j))"
proof (induction rows arbitrary: i)
  case Nil
  then show ?case by simp
next
  case (Cons row rest)
  show ?case
  proof (cases "row_matches kws row")
    case True
    with Cons.prems show ?thesis by simp
  next
    case False
    with Cons.prems have rec: "scan_rows kws (Suc i) rest = Some r" by simp
    from Cons.IH[OF rec] have ih: "Suc i \<le> r" "r - Suc i < length rest"
      "row_matches kws (rest ! (r - Suc i))" "\<forall>j < r - Suc i. \<not> row_matches kws (rest ! j)"
      by auto
    from ih(1) have eq: "r - i = Suc (r - Suc i)" by simp
    have "\<forall>j < r - i. \<not> row_matches kws ((row # rest) ! j)"
      using False ih(4) eq by (auto simp: nth_Cons split: nat.splits)
    with ih eq show ?thesis by simp
  qed
qed

text \<open>
  The scan of an opened sheet: the first matching row among the first \<open>n\<close>, or the
  fallback when none of them matches.
\<close>

lemma scan_sheet_spec:
  "scan_sheet kws n (Inr sheet) = r \<Longrightarrow>
     (r < min n (length sheet) \<and> row_matches kws (sheet ! r) \<and> (\<forall>j < r. \<not> row_matches kws (sheet ! j)))
     \<or> ((\<forall>i < min n (length sheet). \<not> row_matches kws (sheet ! i)) \<and> r = fallback_row)"
proof (cases "scan_rows kws 0 (take n sheet)")
  case None
  assume "scan_sheet kws n (Inr sheet) = r"
  with None have "r = fallback_row" by (simp add: scan_sheet_def)
  moreover from None have "\<forall>i < min n (length sheet). \<not> row_matches kws (sheet ! i)"
    by (simp add: scan_rows_None)
  ultimately show ?thesis by simp
next
  case (Some k)
  assume "scan_sheet kws n (Inr sheet) = r"
  with Some have "r = k" by (simp add: scan_sheet_def)
  with scan_rows_Some[OF Some] show ?thesis by auto
qed

subsection \<open>The example files\<close>

lemmas path_eval = file_ext_def splitext_def rfind_def basename_def dirname_def path_join_def
  ext_xlsx_def ext_xls_def

lemma ext_f_csv: "file_ext f_csv = ustr ''.csv''"
  by (simp add: f_csv_def path_eval str_eval Let_def)
lemma ext_f_2020: "file_ext f_2020 = ext_xlsx"
  by (simp add: f_2020_def path_eval str_eval Let_def)
lemma ext_f_broken: "file_ext f_broken = ext_xlsx"
  by (simp add: f_broken_def path_eval str_eval Let_def)
lemma ext_f_numeric: "file_ext f_numeric = ext_xlsx"
  by (simp add: f_numeric_def path_eval str_eval Let_def)
lemma ext_f_2021: "file_ext f_2021 = ext_xls"
  by (simp add: f_2021_def path_eval str_eval Let_def)
lemma crime_f_2020: "basename (dirname f_2020) = ustr ''HURTO''"
  by (simp add: f_2020_def path_eval str_eval Let_def)

lemma find_header_row_cases:
  "find_header_row E p sk n =
     (if supported p
      then scan_sheet (case sk of None \<Rightarrow> default_keywords | Some k \<Rightarrow> k) n (sheet_of E p)
      else fallback_row)"
  by (simp add: find_header_row_def supported_def sheet_of_def Let_def)

lemmas scan_eval = scan_sheet_def row_matches_def row_str_def default_keywords_def py_in_def
  sublist_code fallback_row_def

lemma demo_files_distinct:
  "f_2020 \<noteq> f_broken" "f_2020 \<noteq> f_2021" "f_2020 \<noteq> f_numeric" "f_2020 \<noteq> f_csv"
  "f_broken \<noteq> f_2021" "f_broken \<noteq> f_numeric" "f_broken \<noteq> f_csv"
  "f_2021 \<noteq> f_numeric" "f_2021 \<noteq> f_csv" "f_numeric \<noteq> f_csv"
  by (simp_all add: f_2020_def f_broken_def f_2021_def f_numeric_def f_csv_def ustr_def)

lemma supported_demo:
  "supported f_2020" "supported f_broken" "supported f_2021" "supported f_numeric"
  "\<not> supported f_csv"
  by (simp_all add: supported_def ext_f_2020 ext_f_broken ext_f_2021 ext_f_numeric ext_f_csv)
     (simp_all add: ext_xlsx_def ext_xls_def ustr_def)

lemma sheet_of_demo:
  "sheet_of demo_env f_2020 = Inr sheet_2020"
  "sheet_of demo_env f_broken = Inl OSError"
  "sheet_of demo_env f_2021 = Inr sheet_2021"
  "sheet_of demo_env f_numeric = Inr sheet_numeric"
  using demo_files_distinct
  by (simp_all add: sheet_of_def demo_env_def ext_f_2020 ext_f_broken ext_f_2021 ext_f_numeric
       ext_xlsx_neq_xls[symmetric])

lemma row_numeric_no_keyword: "\<not> row_matches default_keywords row_numeric"
  by (simp add: row_numeric_def row_matches_def row_str_def default_keywords_def py_in_def
       sublist_code str_eval)

lemma scan_2020: "scan_sheet default_keywords 30 (Inr sheet_2020) = 2"
  by (simp add: sheet_2020_def scan_eval str_eval)

lemma scan_2021: "scan_sheet default_keywords 30 (Inr sheet_2021) = 0"
  by (simp add: sheet_2021_def scan_eval str_eval)

lemma scan_numeric: "scan_sheet default_keywords 30 (Inr sheet_numeric) = 10"
  by (simp add: sheet_numeric_def scan_sheet_def row_numeric_no_keyword fallback_row_def)

lemma header_demo:
  "find_header_row demo_env f_2020 None 30 = 2"
  "find_header_row demo_env f_broken None 30 = 10"
  "find_header_row demo_env f_2021 None 30 = 0"
  "find_header_row demo_env f_numeric None 30 = 10"
  "find_header_row demo_env f_csv None 30 = 10"
  by (simp_all add: find_header_row_cases supported_demo sheet_of_demo scan_2020 scan_2021
       scan_numeric)
     (simp_all add: scan_sheet_def fallback_row_def)

lemma decoded_demo:
  "decoded demo_env f_2020 = Inr frame_2020"
  "decoded demo_env f_broken = Inl ValueError"
  "decoded demo_env f_2021 = Inr frame_2021"
  "decoded demo_env f_numeric = Inr frame_numeric"
  using demo_files_distinct
  by (simp_all add: decoded_def header_demo ext_f_2020 ext_f_broken ext_f_2021 ext_f_numeric
       ext_xlsx_neq_xls[symmetric])
     (simp_all add: demo_env_def)

lemma plain_demo: "plain_labels frame_2020" "plain_labels frame_2021"
  by (simp_all add: plain_labels_def columns_def frame_2020_def frame_2021_def ustr_def)

text \<open>
  C6 (the header row of a supported file). For a file with one of the two extensions,
  \<^verbatim>\<open>find_header_row\<close> returns the zero-based index of the first row, among the first
  \<open>n\<close> rows of the sheet (30 when the caller gives no depth), in which some cell, stripped
  and upper-cased, contains a keyword; when none of these rows does, or the file cannot
  be opened, it returns the fallback index 10.
\<close>

theorem find_header_row_first_keyword_row:
  assumes "supported p"
  shows "case sheet_of E p of
           Inl e \<Rightarrow> find_header_row E p sk n = fallback_row
         | Inr sheet \<Rightarrow>
             (let kws = (case sk of None \<Rightarrow> default_keywords | Some k \<Rightarrow> k);
                  r = find_header_row E p sk n;
                  hit = (\<lambda>row. \<exists>cell \<in> set (row_str row). \<exists>kw \<in> set kws. sublist kw cell)
              in (r < min n (length sheet) \<and> hit (sheet ! r) \<and> (\<forall>j < r. \<not> hit (sheet ! j)))
                 \<or> ((\<forall>i < min n (length sheet). \<not> hit (sheet ! i)) \<and> r = fallback_row))"
proof (cases "sheet_of E p")
  case (Inl e)
  with assms show ?thesis by (simp add: find_header_row_cases scan_sheet_def)
next
  case (Inr sheet)
  let ?kws = "case sk of None \<Rightarrow> default_keywords | Some k \<Rightarrow> k"
  from assms Inr have "scan_sheet ?kws n (Inr sheet) = find_header_row E p sk n"
    by (simp add: find_header_row_cases)
  from scan_sheet_spec[OF this] Inr show ?thesis
    by (simp add: Let_def row_matches_iff)
qed

text \<open>The first example file: its header is found in the third row, index 2.\<close>

theorem find_header_row_first_keyword_row_witness:
  "supported f_2020 \<and> find_header_row demo_env f_2020 None 30 = 2"
proof -
  let ?r = "find_header_row demo_env f_2020 None 30"
  define hit where
    "hit = (\<lambda>row. \<exists>cell \<in> set (row_str row). \<exists>kw \<in> set default_keywords. sublist kw cell)"
  have s: "supported f_2020" by (rule supported_demo)
  have h0: "\<not> hit (sheet_2020 ! 0)" and h1: "\<not> hit (sheet_2020 ! 1)" and h2: "hit (sheet_2020 ! 2)"
    unfolding hit_def row_matches_iff[symmetric]
    by (simp_all add: sheet_2020_def row_matches_def row_str_def default_keywords_def py_in_def
         sublist_code str_eval)
  have len: "min 30 (length sheet_2020) = 5" by (simp add: sheet_2020_def)
  from find_header_row_first_keyword_row[OF s, of demo_env None 30]
  have d: "(?r < 5 \<and> hit (sheet_2020 ! ?r) \<and> (\<forall>j < ?r. \<not> hit (sheet_2020 ! j)))
           \<or> ((\<forall>i < 5. \<not> hit (sheet_2020 ! i)) \<and> ?r = fallback_row)"
    unfolding hit_def by (simp add: sheet_of_demo Let_def len)
  then consider
      (found) "hit (sheet_2020 ! ?r)" "\<forall>j < ?r. \<not> hit (sheet_2020 ! j)"
    | (none) "\<forall>i < 5. \<not> hit (sheet_2020 ! i)"
    by blast
  then have "?r = 2"
  proof cases
    case found
    from found(2) h2 have "\<not> 2 < ?r" by blast
    moreover from found(1) h0 have "?r \<noteq> 0" by metis
    moreover from found(1) h1 have "?r \<noteq> 1" by metis
    ultimately show ?thesis by arith
  next
    case none
    from none[rule_format, of 2] h2 show ?thesis by simp
  qed
  with s show ?thesis by simp
qed

section \<open>Counting files\<close>

text \<open>
  C10 (one counter per call). Every call of \<^verbatim>\<open>analyze_file\<close> either returns true and adds
  one to \<open>processed_files\<close>, leaving \<open>error_files\<close> as it was, or returns false and adds
  one to \<open>error_files\<close>, leaving \<open>processed_files\<close> as it was.
\<close>

theorem analyze_file_moves_one_counter:
  "analyze_file E p st = (ok, st') \<Longrightarrow>
     (ok \<and> processed_files st' = processed_files st + 1 \<and> error_files st' = error_files st)
     \<or> (\<not> ok \<and> error_files st' = error_files st + 1 \<and> processed_files st' = processed_files st)"
proof (cases "supported p")
  case False
  assume "analyze_file E p st = (ok, st')"
  with False show ?thesis by (auto simp: analyze_file_unsupported count_error_def)
next
  case True
  assume r: "analyze_file E p st = (ok, st')"
  show ?thesis
  proof (cases "decoded E p")
    case (Inl e)
    with True r show ?thesis by (auto simp: analyze_file_undecoded count_error_def)
  next
    case (Inr df)
    with True r have "analyze_loaded E p df st = (ok, st')" by (simp add: analyze_file_decoded)
    from analyze_loaded_outcome[OF this] show ?thesis by (cases ok) auto
  qed
qed


text \<open>The first example file is processed, the text file is counted as an error.\<close>

theorem analyze_file_moves_one_counter_witness:
  "fst (analyze_file demo_env f_2020 init_stats)
   \<and> processed_files (snd (analyze_file demo_env f_2020 init_stats)) = 1
   \<and> error_files (snd (analyze_file demo_env f_2020 init_stats)) = 0
   \<and> \<not> fst (analyze_file demo_env f_csv init_stats)
   \<and> processed_files (snd (analyze_file demo_env f_csv init_stats)) = 0
   \<and> error_files (snd (analyze_file demo_env f_csv init_stats)) = 1"
proof -
  have ok: "fst (analyze_file demo_env f_2020 init_stats)"
    by (simp add: analyze_file_decoded supported_demo decoded_demo analyze_loaded_plain plain_demo)
  have bad: "\<not> fst (analyze_file demo_env f_csv init_stats)"
    by (simp add: analyze_file_unsupported supported_demo count_error_def)
  from analyze_file_moves_one_counter[of demo_env f_2020 init_stats
      "fst (analyze_file demo_env f_2020 init_stats)" "snd (analyze_file demo_env f_2020 init_stats)"]
    ok
  have a: "processed_files (snd (analyze_file demo_env f_2020 init_stats)) = 1
           \<and> error_files (snd (analyze_file demo_env f_2020 init_stats)) = 0"
    by (simp add: init_stats_def)
  from analyze_file_moves_one_counter[of demo_env f_csv init_stats
      "fst (analyze_file demo_env f_csv init_stats)" "snd (analyze_file demo_env f_csv init_stats)"]
    bad
  have b: "processed_files (snd (analyze_file demo_env f_csv init_stats)) = 0
           \<and> error_files (snd (analyze_file demo_env f_csv init_stats)) = 1"
    by (simp add: init_stats_def)
  from ok bad a b show ?thesis by simp
qed

section \<open>Unsupported files\<close>

text \<open>
  C5, as the code has it. For a file whose extension is neither of the two,
  \<^verbatim>\<open>find_header_row\<close> returns the fallback index 10 whatever the file holds (nothing is
  opened or scanned), and \<^verbatim>\<open>analyze_file\<close> returns false with one more error file and
  nothing else changed.
\<close>

theorem unsupported_file_falls_back_and_counts:
  assumes "\<not> supported p"
  shows "find_header_row E p sk n = fallback_row
         \<and> fallback_row = 10
         \<and> analyze_file E p st = (False, st\<lparr>error_files := error_files st + 1\<rparr>)"
  using assms
  by (simp add: find_header_row_cases analyze_file_unsupported count_error_def fallback_row_def)

theorem unsupported_file_falls_back_and_counts_witness:
  "\<not> supported f_csv
   \<and> find_header_row demo_env f_csv None 30 = 10
   \<and> analyze_file demo_env f_csv init_stats = (False, init_stats\<lparr>error_files := 1\<rparr>)"
proof -
  have s: "\<not> supported f_csv" by (rule supported_demo)
  from unsupported_file_falls_back_and_counts[OF s, of demo_env None 30 init_stats] s
  show ?thesis by (simp add: init_stats_def)
qed

text \<open>
  Against C5 as stated: for the text file the header locator does not signal anything;
  it answers with the same fallback guess that it gives for the workbook in which no
  keyword is found.
\<close>

theorem unsupported_file_gets_fallback_guess:
  "\<not> supported f_csv
   \<and> find_header_row demo_env f_csv None 30 = fallback_row
   \<and> supported f_numeric
   \<and> find_header_row demo_env f_csv None 30 = find_header_row demo_env f_numeric None 30"
  by (simp add: supported_demo header_demo fallback_row_def)

section \<open>Failing files\<close>

lemma analyze_loaded_date_error:
  "find_date_column (applymap cell_to_str df) = Inl e \<Longrightarrow> \<not> fst (analyze_loaded E p df st)"
  by (simp add: analyze_loaded_def Let_def count_error_def split: prod.splits option.splits)

lemma analyze_file_ok:
  assumes "supported p" "decoded E p = Inr df" "plain_labels df"
  shows "processed_files (snd (analyze_file E p st)) = processed_files st + 1"
    and "error_files (snd (analyze_file E p st)) = error_files st"
    and "total_records (snd (analyze_file E p st)) = total_records st + nrows df"
    and "records_per_file (snd (analyze_file E p st)) = (records_per_file st)(p \<mapsto> nrows df)"
proof -
  obtain ok st' where r: "analyze_loaded E p df st = (ok, st')"
    by (cases "analyze_loaded E p df st")
  with analyze_loaded_plain[OF assms(3), of E p st] have ok by simp
  with analyze_loaded_outcome[OF r] r assms(1,2)
  show "processed_files (snd (analyze_file E p st)) = processed_files st + 1"
    and "error_files (snd (analyze_file E p st)) = error_files st"
    and "total_records (snd (analyze_file E p st)) = total_records st + nrows df"
    and "records_per_file (snd (analyze_file E p st)) = (records_per_file st)(p \<mapsto> nrows df)"
    by (simp_all add: analyze_file_decoded)
qed

lemma column_loop_keeps_category:
  "column_stats st crime \<noteq> None \<Longrightarrow>
     column_stats (snd (column_loop labels crime cs st)) crime \<noteq> None"
proof (induction labels crime cs st rule: column_loop.induct)
  case (1 all_labels crime_type st)
  then show ?case by simp
next
  case (2 all_labels crime_type col cells rest st)
  then show ?case by (simp add: Let_def)
qed

lemma analyze_dataframe_writes_category:
  "column_stats (snd (analyze_dataframe df crime st)) crime \<noteq> None"
proof -
  let ?st1 = "if column_stats st crime = None
              then st\<lparr>column_stats := (column_stats st)(crime \<mapsto> Map.empty)\<rparr> else st"
  have "column_stats ?st1 crime \<noteq> None" by simp
  moreover obtain r st2 where c: "column_loop (columns df) crime (cols df) ?st1 = (r, st2)"
    by (cases "column_loop (columns df) crime (cols df) ?st1")
  ultimately have "column_stats st2 crime \<noteq> None"
    using column_loop_keeps_category[of ?st1 crime "columns df" "cols df"] by simp
  with c show ?thesis
    by (cases r) (simp_all add: analyze_dataframe_def Let_def)
qed

lemma analyze_loaded_writes_category:
  "column_stats (snd (analyze_loaded E p df st)) (basename (dirname p)) \<noteq> None"
proof -
  let ?df = "applymap cell_to_str df"
  let ?crime = "basename (dirname p)"
  let ?st1 = "st\<lparr>records_per_file := (records_per_file st)(p \<mapsto> nrows ?df),
                  total_records := total_records st + nrows ?df\<rparr>"
  obtain r st2 where a: "analyze_dataframe ?df ?crime ?st1 = (r, st2)"
    by (cases "analyze_dataframe ?df ?crime ?st1")
  with analyze_dataframe_writes_category[of ?df ?crime ?st1]
  have "column_stats st2 ?crime \<noteq> None" by simp
  with a show ?thesis
    by (simp add: analyze_loaded_def Let_def count_error_def analyze_dates_counters
             split: option.splits sum.splits)
qed

lemma crime_f_numeric: "basename (dirname f_numeric) = ustr ''HURTO''"
  by (simp add: f_numeric_def path_eval str_eval Let_def)

text \<open>
  C2, as the code has it. A supported file whose reading raises adds one to
  \<open>error_files\<close> and changes nothing else in the statistics. A file that is read and then
  fails adds one to \<open>error_files\<close> as well, but its record count is already stored and
  added to the total. Three supported files of which the second cannot be read and the
  other two have plain labels: two files processed, one error, and the record counts of
  the first and the third file only.
\<close>

theorem decode_failure_leaves_no_trace:
  "(supported p \<and> decoded E p = Inl e \<longrightarrow>
      analyze_file E p st = (False, st\<lparr>error_files := error_files st + 1\<rparr>))
   \<and> (supported p \<and> decoded E p = Inr df \<and> analyze_file E p st = (False, st') \<longrightarrow>
        error_files st' = error_files st + 1
        \<and> records_per_file st' = (records_per_file st)(p \<mapsto> nrows df)
        \<and> total_records st' = total_records st + nrows df)
   \<and> (supported f1 \<and> supported f2 \<and> supported f3
        \<and> decoded E f1 = Inr d1 \<and> plain_labels d1
        \<and> decoded E f2 = Inl e
        \<and> decoded E f3 = Inr d3 \<and> plain_labels d3 \<longrightarrow>
        processed_files (analyze_files E [f1, f2, f3] st) = processed_files st + 2
        \<and> error_files (analyze_files E [f1, f2, f3] st) = error_files st + 1
        \<and> total_records (analyze_files E [f1, f2, f3] st) = total_records st + nrows d1 + nrows d3
        \<and> records_per_file (analyze_files E [f1, f2, f3] st)
            = (records_per_file st)(f1 \<mapsto> nrows d1, f3 \<mapsto> nrows d3))"
proof (intro conjI impI)
  assume "supported p \<and> decoded E p = Inl e"
  then show "analyze_file E p st = (False, st\<lparr>error_files := error_files st + 1\<rparr>)"
    by (simp add: analyze_file_undecoded count_error_def)
next
  assume a: "supported p \<and> decoded E p = Inr df \<and> analyze_file E p st = (False, st')"
  with analyze_file_decoded[of p E df st] have "analyze_loaded E p df st = (False, st')" by simp
  from analyze_loaded_outcome[OF this]
  show "error_files st' = error_files st + 1"
    and "records_per_file st' = (records_per_file st)(p \<mapsto> nrows df)"
    and "total_records st' = total_records st + nrows df"
    by simp_all
next
  assume a: "supported f1 \<and> supported f2 \<and> supported f3
        \<and> decoded E f1 = Inr d1 \<and> plain_labels d1
        \<and> decoded E f2 = Inl e
        \<and> decoded E f3 = Inr d3 \<and> plain_labels d3"
  define s1 where "s1 = snd (analyze_file E f1 st)"
  define s2 where "s2 = snd (analyze_file E f2 s1)"
  define s3 where "s3 = snd (analyze_file E f3 s2)"
  have run: "analyze_files E [f1, f2, f3] st = s3"
    by (simp add: analyze_files_def s1_def s2_def s3_def)
  from a have one: "processed_files s1 = processed_files st + 1" "error_files s1 = error_files st"
    "total_records s1 = total_records st + nrows d1"
    "records_per_file s1 = (records_per_file st)(f1 \<mapsto> nrows d1)"
    unfolding s1_def by (simp_all add: analyze_file_ok)
  from a have two: "s2 = s1\<lparr>error_files := error_files s1 + 1\<rparr>"
    unfolding s2_def by (simp add: analyze_file_undecoded count_error_def)
  from a have three: "processed_files s3 = processed_files s2 + 1" "error_files s3 = error_files s2"
    "total_records s3 = total_records s2 + nrows d3"
    "records_per_file s3 = (records_per_file s2)(f3 \<mapsto> nrows d3)"
    unfolding s3_def by (simp_all add: analyze_file_ok)
  show "processed_files (analyze_files E [f1, f2, f3] st) = processed_files st + 2"
    using run one two three by simp
  show "error_files (analyze_files E [f1, f2, f3] st) = error_files st + 1"
    using run one two three by simp
  show "total_records (analyze_files E [f1, f2, f3] st) = total_records st + nrows d1 + nrows d3"
    using run one two three by simp
  show "records_per_file (analyze_files E [f1, f2, f3] st)
            = (records_per_file st)(f1 \<mapsto> nrows d1, f3 \<mapsto> nrows d3)"
    using run one two three by simp
qed

text \<open>The three example files: the second cannot be opened.\<close>

theorem decode_failure_leaves_no_trace_witness:
  "analyze_file demo_env f_broken init_stats = (False, init_stats\<lparr>error_files := 1\<rparr>)
   \<and> processed_files (analyze_files demo_env [f_2020, f_broken, f_2021] init_stats) = 2
   \<and> error_files (analyze_files demo_env [f_2020, f_broken, f_2021] init_stats) = 1
   \<and> total_records (analyze_files demo_env [f_2020, f_broken, f_2021] init_stats) = 3
   \<and> records_per_file (analyze_files demo_env [f_2020, f_broken, f_2021] init_stats)
        = [f_2020 \<mapsto> 2, f_2021 \<mapsto> 1]"
  using decode_failure_leaves_no_trace[where p = f_broken and E = demo_env and e = ValueError
          and st = init_stats and ?f1.0 = f_2020 and ?f2.0 = f_broken and ?f3.0 = f_2021
          and ?d1.0 = frame_2020 and ?d3.0 = frame_2021]
  by (simp add: supported_demo decoded_demo plain_demo)
     (simp add: init_stats_def frame_2020_def frame_2021_def)

text \<open>
  Against C2 as stated: the workbook without header keywords is read with its eleventh
  row as header; the number in that row is a label without \<^verbatim>\<open>lower\<close>, so the search for
  the date column raises after the record count and the column statistics were written.
  The file counts as an error, and its two records stay in the statistics.
\<close>

theorem late_exception_keeps_record_count:
  "supported f_numeric
   \<and> decoded demo_env f_numeric = Inr frame_numeric
   \<and> \<not> fst (analyze_file demo_env f_numeric init_stats)
   \<and> error_files (snd (analyze_file demo_env f_numeric init_stats)) = 1
   \<and> processed_files (snd (analyze_file demo_env f_numeric init_stats)) = 0
   \<and> total_records (snd (analyze_file demo_env f_numeric init_stats)) = 2
   \<and> records_per_file (snd (analyze_file demo_env f_numeric init_stats)) f_numeric = Some 2
   \<and> column_stats (snd (analyze_file demo_env f_numeric init_stats)) (ustr ''HURTO'') \<noteq> None"
proof -
  have d: "find_date_column (applymap cell_to_str frame_numeric) = Inl AttributeError"
    by (simp add: find_date_column_def columns_applymap)
       (simp add: columns_def frame_numeric_def date_indicators_def py_in_def sublist_code str_eval)
  have f: "analyze_file demo_env f_numeric init_stats
             = analyze_loaded demo_env f_numeric frame_numeric init_stats"
    by (simp add: analyze_file_decoded supported_demo decoded_demo)
  obtain ok st' where r: "analyze_loaded demo_env f_numeric frame_numeric init_stats = (ok, st')"
    by (cases "analyze_loaded demo_env f_numeric frame_numeric init_stats")
  with analyze_loaded_date_error[OF d, of demo_env f_numeric init_stats] have no: "\<not> ok" by simp
  from analyze_loaded_writes_category[of demo_env f_numeric frame_numeric init_stats] r
  have c: "column_stats st' (ustr ''HURTO'') \<noteq> None" by (simp add: crime_f_numeric)
  from analyze_loaded_outcome[OF r] r no c f show ?thesis
    by (simp add: supported_demo decoded_demo init_stats_def frame_numeric_def)
qed

section \<open>The unified table: results\<close>

lemma set_first_seen: "set (first_seen xs) = set xs"
  by (induction xs) auto

lemma distinct_first_seen: "distinct (first_seen xs)"
  by (induction xs) (auto simp: set_first_seen)

lemma columns_stack_by_position:
  "map fst (stack_by_position dfs labels) = labels"
  by (simp add: stack_by_position_def comp_def map_nth)

lemma columns_stack_by_label:
  "map fst (stack_by_label dfs) = first_seen (concat (map columns dfs))"
  by (simp add: stack_by_label_def comp_def)

lemma concat_frames_distinct:
  assumes "dfs \<noteq> []" "\<forall>df \<in> set dfs. distinct (columns df)"
  shows "\<exists>u. concat_frames dfs = Inr u \<and> distinct (columns u)
              \<and> nrows u = sum_list (map nrows dfs)"
proof -
  from assms(1) obtain d ds where dfs: "dfs = d # ds" by (cases dfs) auto
  from assms(2) have no_dup: "\<not> list_ex (\<lambda>df. \<not> distinct (columns df)) (d # ds)"
    by (simp add: dfs list_ex_iff)
  from assms(2) have dd: "distinct (columns d)" by (simp add: dfs)
  show ?thesis
  proof (cases "list_all (\<lambda>df. columns df = columns d) ds")
    case True
    with dd show ?thesis
      unfolding dfs by (simp add: columns_def columns_stack_by_position)
  next
    case False
    have "columns \<lparr>nrows = sum_list (map nrows (d # ds)), cols = stack_by_label (d # ds)\<rparr>
            = first_seen (concat (map columns (d # ds)))"
      by (simp add: columns_def columns_stack_by_label)
    then have "distinct (columns \<lparr>nrows = sum_list (map nrows (d # ds)),
                                   cols = stack_by_label (d # ds)\<rparr>)"
      by (simp only: distinct_first_seen)
    moreover from False no_dup have "concat_frames (d # ds)
        = Inr \<lparr>nrows = sum_list (map nrows (d # ds)), cols = stack_by_label (d # ds)\<rparr>"
      by (simp only: concat_frames.simps if_False)
    ultimately show ?thesis unfolding dfs by simp
  qed
qed

lemma add_missing_columns_props:
  "nrows (add_missing_columns keys df) = nrows df
   \<and> (distinct (columns df) \<longrightarrow> distinct (columns (add_missing_columns keys df)))
   \<and> set (columns (add_missing_columns keys df)) = set (columns df) \<union> LStr ` set keys"
proof (induction keys arbitrary: df)
  case Nil
  show ?case by (simp add: add_missing_columns_def)
next
  case (Cons k keys)
  let ?d = "if LStr k \<notin> set (columns df)
            then df\<lparr>cols := cols df @ [(LStr k, replicate (nrows df) (Str []))]\<rparr> else df"
  have step: "add_missing_columns (k # keys) df = add_missing_columns keys ?d"
    by (simp add: add_missing_columns_def)
  have d: "nrows ?d = nrows df" "distinct (columns df) \<longrightarrow> distinct (columns ?d)"
    "set (columns ?d) = insert (LStr k) (set (columns df))"
    by (auto simp: columns_def)
  from Cons.IH[of ?d] d show ?case
    unfolding step by auto
qed

lemma filter_label_distinct:
  "distinct (map fst cs) \<Longrightarrow> l \<in> set (map fst cs) \<Longrightarrow>
     map fst (filter (\<lambda>(l', cells). l' = l) cs) = [l]"
proof (induction cs)
  case Nil
  then show ?case by simp
next
  case (Cons c cs)
  obtain l' cells where c: "c = (l', cells)" by (cases c)
  show ?case
  proof (cases "l' = l")
    case True
    with Cons.prems c have "l \<notin> set (map fst cs)" by auto
    then have "filter (\<lambda>(l', cells). l' = l) cs = []"
      by (force simp: filter_empty_conv)
    with True c show ?thesis by simp
  next
    case False
    with Cons c show ?thesis by auto
  qed
qed

lemma select_columns_distinct:
  assumes "distinct (columns df)" "LStr ` set keys \<subseteq> set (columns df)"
  shows "\<exists>t. select_columns df keys = Inr t \<and> columns t = map LStr keys \<and> nrows t = nrows df"
proof -
  from assms(2) have all: "list_all (\<lambda>k. LStr k \<in> set (columns df)) keys"
    by (auto simp: list_all_iff)
  have "map fst (concat (map (\<lambda>k. filter (\<lambda>(l, cells). l = LStr k) (cols df)) keys)) = map LStr keys"
    using assms(2)
  proof (induction keys)
    case Nil
    show ?case by simp
  next
    case (Cons k keys)
    from Cons.prems have "LStr k \<in> set (map fst (cols df))" by (simp add: columns_def)
    with assms(1) have "map fst (filter (\<lambda>(l, cells). l = LStr k) (cols df)) = [LStr k]"
      by (simp add: filter_label_distinct columns_def)
    with Cons show ?case by simp
  qed
  with all show ?thesis by (simp add: select_columns_def columns_def)
qed

lemma unify_frames_distinct:
  assumes "dfs \<noteq> []" "\<forall>df \<in> set dfs. distinct (columns df)"
  shows "\<exists>t. unify_frames dfs = Inr t \<and> columns t = map LStr key_columns
              \<and> nrows t = sum_list (map nrows dfs)"
proof -
  from concat_frames_distinct[OF assms] obtain u where
    u: "concat_frames dfs = Inr u" "distinct (columns u)" "nrows u = sum_list (map nrows dfs)"
    by auto
  let ?a = "add_missing_columns key_columns u"
  from add_missing_columns_props[of key_columns u] u(2) have
    a: "nrows ?a = nrows u" "distinct (columns ?a)" "LStr ` set key_columns \<subseteq> set (columns ?a)"
    by auto
  from select_columns_distinct[OF a(2,3)] obtain t where
    "select_columns ?a key_columns = Inr t" "columns t = map LStr key_columns" "nrows t = nrows ?a"
    by auto
  with assms(1) u a(1) show ?thesis by (simp add: unify_frames_def)
qed

lemma fold_assign:
  "fold (\<lambda>l acc. if P l then acc(l \<mapsto> v) else acc) labels m
     = (\<lambda>l. if l \<in> set labels \<and> P l then Some v else m l)"
  by (induction labels arbitrary: m) (auto simp: fun_eq_iff)

lemma fold_table:
  "fold (\<lambda>(std, syns) m. (\<lambda>l. if l \<in> set labels \<and> Q syns l then Some std else m l)) table m0
     = (\<lambda>l. case filter (\<lambda>(std, syns). l \<in> set labels \<and> Q syns l) table of
               [] \<Rightarrow> m0 l
             | ms \<Rightarrow> Some (fst (last ms)))"
proof (induction table arbitrary: m0)
  case Nil
  show ?case by simp
next
  case (Cons x table)
  obtain std syns where x: "x = (std, syns)" by (cases x)
  show ?case
    unfolding x by (auto simp: Cons.IH fun_eq_iff split: list.splits)
qed

lemma col_map_of_eq:
  "col_map_of labels l = (if l \<in> set labels then standard_name l else None)"
proof -
  have "col_map_of labels
          = fold (\<lambda>(std, syns) m. (\<lambda>l. if l \<in> set labels
                    \<and> normalize_column l \<in> set (map (\<lambda>s. normalize_column (LStr s)) syns)
                  then Some std else m l)) COLUMN_SYNONYMS Map.empty"
    unfolding col_map_of_def fold_assign ..
  then show ?thesis
    by (simp add: fold_table standard_name_def split: list.splits)
qed

lemma normal_sets:
  "map (\<lambda>(std, syns). (std, set (map (\<lambda>s. normalize_column (LStr s)) syns))) COLUMN_SYNONYMS =
     [(ustr ''DEPARTAMENTO'',
        {ustr ''DEPARTAMENTO'', ustr ''DEPTO'', ustr ''DEPTO.''}),
      (ustr ''MUNICIPIO'',
        {ustr ''MUNICIPIO''}),
      (ustr ''CODIGO DANE'',
        {ustr ''CODIGO DANE'', ustr ''COD DANE'', ustr ''DANE''}),
      (ustr ''ARMAS MEDIOS'',
        {ustr ''ARMAS MEDIOS'', ustr ''ARMA MEDIO'', ustr ''ARMA'', ustr ''MEDIO'', ustr ''ARMA MEDIOS'', ustr ''ARMA MEDIO ''}),
      (ustr ''FECHA HECHO'',
        {ustr ''FECHA HECHO'', ustr ''FECHA'', ustr ''FECHA DEL HECHO''}),
      (ustr ''GENERO'',
        {ustr ''GENERO''}),
      (ustr ''AGRUPA EDAD PERSONA'',
        {ustr ''AGRUPA EDAD PERSONA'', ustr ''EDAD'', ustr ''EDAD PERSONA''}),
      (ustr ''CANTIDAD'',
        {ustr ''CANTIDAD'', ustr ''CANT''})]"
  by (simp add: COLUMN_SYNONYMS_def normalize_column_steps str_eval insert_commute)

lemma case_nonempty_last:
  "ys \<noteq> [] \<Longrightarrow> (case ys of [] \<Rightarrow> None | ms \<Rightarrow> Some (g (last ms))) = Some (g (last ys))"
  by (cases ys) auto

lemma last_filter_find:
  "(case filter P xs of [] \<Rightarrow> None | ms \<Rightarrow> Some (g (last ms))) = map_option g (find P (rev xs))"
proof (induction xs rule: rev_induct)
  case Nil
  show ?case by simp
next
  case (snoc x xs)
  show ?case
  proof (cases "P x")
    case True
    then have "filter P (xs @ [x]) = filter P xs @ [x]" by simp
    with case_nonempty_last[of "filter P xs @ [x]" g] True show ?thesis by simp
  next
    case False
    with snoc show ?thesis by simp
  qed
qed

lemma find_map_list: "find P (map f xs) = map_option f (find (\<lambda>x. P (f x)) xs)"
  by (induction xs) auto

lemma standard_name_find:
  "standard_name l =
     map_option fst (find (\<lambda>(std, S). normalize_column l \<in> S)
       (rev (map (\<lambda>(std, syns). (std, set (map (\<lambda>s. normalize_column (LStr s)) syns)))
               COLUMN_SYNONYMS)))"
proof -
  let ?f = "\<lambda>(std, syns). (std, set (map (\<lambda>s. normalize_column (LStr s)) syns))"
  let ?P = "\<lambda>(std, syns). normalize_column l \<in> set (map (\<lambda>s. normalize_column (LStr s)) syns)"
  have "find (\<lambda>(std, S). normalize_column l \<in> S) (rev (map ?f COLUMN_SYNONYMS))
          = map_option ?f (find ?P (rev COLUMN_SYNONYMS))"
    by (simp add: rev_map find_map_list case_prod_unfold)
  then have "map_option fst (find (\<lambda>(std, S). normalize_column l \<in> S) (rev (map ?f COLUMN_SYNONYMS)))
          = map_option fst (find ?P (rev COLUMN_SYNONYMS))"
    by (simp add: option.map_comp comp_def case_prod_unfold)
  then show ?thesis
    unfolding standard_name_def last_filter_find by simp
qed

text \<open>The standard column of a label, from the normal form of the label.\<close>

lemma standard_name_by_normal_form:
  "standard_name l =
     (if normalize_column l \<in> {ustr ''CANTIDAD'', ustr ''CANT''} then Some (ustr ''CANTIDAD'')
      else if normalize_column l \<in> {ustr ''AGRUPA EDAD PERSONA'', ustr ''EDAD'', ustr ''EDAD PERSONA''}
        then Some (ustr ''AGRUPA EDAD PERSONA'')
      else if normalize_column l \<in> {ustr ''GENERO''} then Some (ustr ''GENERO'')
      else if normalize_column l \<in> {ustr ''FECHA HECHO'', ustr ''FECHA'', ustr ''FECHA DEL HECHO''}
        then Some (ustr ''FECHA HECHO'')
      else if normalize_column l \<in> {ustr ''ARMAS MEDIOS'', ustr ''ARMA MEDIO'', ustr ''ARMA'',
                     ustr ''MEDIO'', ustr ''ARMA MEDIOS'', ustr ''ARMA MEDIO ''}
        then Some (ustr ''ARMAS MEDIOS'')
      else if normalize_column l \<in> {ustr ''CODIGO DANE'', ustr ''COD DANE'', ustr ''DANE''}
        then Some (ustr ''CODIGO DANE'')
      else if normalize_column l \<in> {ustr ''MUNICIPIO''} then Some (ustr ''MUNICIPIO'')
      else if normalize_column l \<in> {ustr ''DEPARTAMENTO'', ustr ''DEPTO'', ustr ''DEPTO.''}
        then Some (ustr ''DEPARTAMENTO'')
      else None)"
  unfolding standard_name_find normal_sets
  by (simp only: rev.simps append.simps find.simps case_prod_conv option.map fst_conv
        if_distrib[where f = "map_option fst"])

lemma key_columns_eval:
  "key_columns =
     [ustr ''DEPARTAMENTO'', ustr ''MUNICIPIO'', ustr ''CODIGO DANE'', ustr ''ARMAS MEDIOS'',
      ustr ''FECHA HECHO'', ustr ''GENERO'', ustr ''AGRUPA EDAD PERSONA'', ustr ''CANTIDAD'']"
  by (simp add: key_columns_def COLUMN_SYNONYMS_def)

lemma map_columns_to_standard_eq:
  "map_columns_to_standard df =
     df\<lparr>cols := map (\<lambda>(l, cells). (case standard_name l of None \<Rightarrow> l | Some s \<Rightarrow> LStr s, cells))
                     (cols df)\<rparr>"
proof -
  have "map (\<lambda>(l, cells). (case col_map_of (columns df) l of None \<Rightarrow> l | Some s \<Rightarrow> LStr s, cells))
          (cols df)
        = map (\<lambda>(l, cells). (case standard_name l of None \<Rightarrow> l | Some s \<Rightarrow> LStr s, cells))
            (cols df)"
  proof (rule map_cong)
    fix c assume "c \<in> set (cols df)"
    then have "fst c \<in> set (columns df)" by (simp add: columns_def)
    then show "(case c of (l, cells) \<Rightarrow>
                  (case col_map_of (columns df) l of None \<Rightarrow> l | Some s \<Rightarrow> LStr s, cells))
             = (case c of (l, cells) \<Rightarrow>
                  (case standard_name l of None \<Rightarrow> l | Some s \<Rightarrow> LStr s, cells))"
      by (cases c) (simp add: col_map_of_eq)
  qed simp
  then show ?thesis by (simp add: map_columns_to_standard_def rename_columns_def)
qed

text \<open>Each standard column name is its own normal form.\<close>

lemma key_columns_normal: "k \<in> set key_columns \<Longrightarrow> normalize_column (LStr k) = k"
  unfolding key_columns_eval
  by (auto simp: normalize_column_steps str_eval)

lemma standard_name_range: "standard_name l = Some s \<Longrightarrow> s \<in> set key_columns"
  unfolding standard_name_by_normal_form key_columns_eval
  by (simp split: if_splits)

lemma standard_name_hits_keys:
  "normalize_column l \<in> set key_columns \<Longrightarrow> standard_name l \<noteq> None"
  unfolding standard_name_by_normal_form key_columns_eval
  by auto

text \<open>
  The removal step finds nothing to remove: after the renaming, a label with the normal
  form of a standard column is that column.
\<close>

lemma cols_to_drop_empty: "cols_to_drop (map_columns_to_standard df) = []"
proof -
  have ok: "\<not> (normalize_column l' = normalize_column (LStr k) \<and> l' \<noteq> LStr k)"
    if k: "k \<in> set key_columns"
      and l': "l' = (case standard_name l of None \<Rightarrow> l | Some s \<Rightarrow> LStr s)" for l l' k
  proof (cases "standard_name l")
    case None
    with standard_name_hits_keys[of l] have "normalize_column l \<notin> set key_columns" by auto
    with k key_columns_normal[OF k] None l' show ?thesis by auto
  next
    case (Some s)
    from standard_name_range[OF Some] have "normalize_column (LStr s) = s"
      by (rule key_columns_normal)
    with key_columns_normal[OF k] Some l' show ?thesis by auto
  qed
  show ?thesis
    unfolding cols_to_drop_def map_columns_to_standard_eq
    using ok by (auto simp: columns_def concat_eq_Nil_conv)
qed

lemma standardize_eq:
  "standardize df0 =
     \<lparr>nrows = nrows df0,
      cols = map (\<lambda>(l, cells). (fragment_label l, map cell_to_str cells)) (cols df0)\<rparr>"
proof -
  let ?n = "normalize_columns (applymap cell_to_str df0)"
  have "standardize df0 = map_columns_to_standard ?n"
    by (simp add: standardize_def Let_def cols_to_drop_empty drop_columns_def)
  also have "\<dots> = \<lparr>nrows = nrows df0,
      cols = map (\<lambda>(l, cells). (fragment_label l, map cell_to_str cells)) (cols df0)\<rparr>"
    by (cases df0)
       (simp add: map_columns_to_standard_eq normalize_columns_def applymap_def fragment_label_def
          comp_def case_prod_unfold cong: option.case_cong)
  finally show ?thesis .
qed

lemma demo_normal_forms:
  "normalize_column (LStr (ustr '' departamento '')) = ustr ''DEPARTAMENTO''"
  "normalize_column (LStr (ustr ''Fecha hecho'')) = ustr ''FECHA HECHO''"
  "normalize_column (LStr (ustr ''Cantidad'')) = ustr ''CANTIDAD''"
  "normalize_column (LStr (ustr ''MUNICIPIO'')) = ustr ''MUNICIPIO''"
  "normalize_column (LStr (ustr ''CANT'')) = ustr ''CANT''"
  "normalize_column (LStr (ustr ''Arma'')) = ustr ''ARMA''"
  "normalize_column (LStr (ustr ''Medio'')) = ustr ''MEDIO''"
  "normalize_column (LStr (ustr ''ARMA'')) = ustr ''ARMA''"
  "normalize_column (LStr (ustr ''MEDIO'')) = ustr ''MEDIO''"
  "normalize_column (LStr (ustr ''DEPARTAMENTO'')) = ustr ''DEPARTAMENTO''"
  "normalize_column (LStr (ustr ''FECHA HECHO'')) = ustr ''FECHA HECHO''"
  "normalize_column (LStr (ustr ''CANTIDAD'')) = ustr ''CANTIDAD''"
  by (simp_all add: normalize_column_steps str_eval)

lemma demo_standard_names:
  "standard_name (LStr (ustr ''DEPARTAMENTO'')) = Some (ustr ''DEPARTAMENTO'')"
  "standard_name (LStr (ustr ''FECHA HECHO'')) = Some (ustr ''FECHA HECHO'')"
  "standard_name (LStr (ustr ''CANTIDAD'')) = Some (ustr ''CANTIDAD'')"
  "standard_name (LStr (ustr ''MUNICIPIO'')) = Some (ustr ''MUNICIPIO'')"
  "standard_name (LStr (ustr ''CANT'')) = Some (ustr ''CANTIDAD'')"
  "standard_name (LStr (ustr ''ARMA'')) = Some (ustr ''ARMAS MEDIOS'')"
  "standard_name (LStr (ustr ''MEDIO'')) = Some (ustr ''ARMAS MEDIOS'')"
  unfolding standard_name_by_normal_form demo_normal_forms
  by (simp_all add: ustr_def)

lemma demo_fragment_labels:
  "fragment_label (LStr (ustr '' departamento '')) = LStr (ustr ''DEPARTAMENTO'')"
  "fragment_label (LStr (ustr ''Fecha hecho'')) = LStr (ustr ''FECHA HECHO'')"
  "fragment_label (LStr (ustr ''Cantidad'')) = LStr (ustr ''CANTIDAD'')"
  "fragment_label (LStr (ustr ''MUNICIPIO'')) = LStr (ustr ''MUNICIPIO'')"
  "fragment_label (LStr (ustr ''CANT'')) = LStr (ustr ''CANTIDAD'')"
  "fragment_label (LStr (ustr ''Arma'')) = LStr (ustr ''ARMAS MEDIOS'')"
  "fragment_label (LStr (ustr ''Medio'')) = LStr (ustr ''ARMAS MEDIOS'')"
  unfolding fragment_label_def demo_normal_forms demo_standard_names
  by simp_all

lemma demo_fragments:
  "standardize frame_2020 = fragment_2020"
  "standardize frame_2021 = fragment_2021"
  "standardize frame_two_weapons = fragment_two_weapons"
  unfolding standardize_eq frame_2020_def frame_2021_def frame_two_weapons_def
    fragment_2020_def fragment_2021_def fragment_two_weapons_def
  by (simp_all add: demo_fragment_labels) (simp_all add: cell_to_str_def ustr_def)

subsection \<open>The example folder\<close>

lemma load_fragment_cases:
  "load_fragment E p =
     (if supported p
      then (case decoded E p of Inl e \<Rightarrow> None | Inr df \<Rightarrow> Some (standardize df))
      else None)"
  by (auto simp: load_fragment_def supported_def decoded_def Let_def ext_xlsx_neq_xls)

lemma demo_folder_files:
  "folder_files demo_env (ustr ''Data'') (ustr ''HURTO'') = [f_2020, f_broken, f_2021]"
  by (simp add: folder_files_def path_join_def demo_env_def py_endswith_def ext_xlsx_def ext_xls_def
        f_2020_def f_broken_def f_2021_def suffix_to_prefix ustr_def)

lemma demo_folder_fragments:
  "drop_none (map (load_fragment demo_env) (folder_files demo_env (ustr ''Data'') (ustr ''HURTO'')))
     = [fragment_2020, fragment_2021]"
  unfolding demo_folder_files
  by (simp add: load_fragment_cases supported_demo decoded_demo demo_fragments drop_none_def)

lemma demo_fragments_distinct:
  "distinct (columns fragment_2020)" "distinct (columns fragment_2021)"
  "\<not> distinct (columns fragment_two_weapons)"
  by (simp_all add: columns_def fragment_2020_def fragment_2021_def fragment_two_weapons_def ustr_def)

text \<open>
  C1, as the code has it. With no fragment the unified table is the empty table: no row
  and no column. With at least one fragment, none of which has a label twice, the
  unified table has exactly the eight standard columns, in the order of the synonym
  table, and as many rows as the fragments together.
\<close>

theorem unified_table_has_key_columns:
  "unify_frames [] = Inr empty_frame
   \<and> columns empty_frame = [] \<and> nrows empty_frame = 0
   \<and> (dfs \<noteq> [] \<and> (\<forall>df \<in> set dfs. distinct (columns df)) \<longrightarrow>
        (\<exists>t. unify_frames dfs = Inr t \<and> columns t = map LStr key_columns
              \<and> nrows t = sum_list (map nrows dfs)))
   \<and> key_columns =
       [ustr ''DEPARTAMENTO'', ustr ''MUNICIPIO'', ustr ''CODIGO DANE'', ustr ''ARMAS MEDIOS'',
        ustr ''FECHA HECHO'', ustr ''GENERO'', ustr ''AGRUPA EDAD PERSONA'', ustr ''CANTIDAD'']"
  using unify_frames_distinct[of dfs]
  by (simp add: unify_frames_def empty_frame_def columns_def key_columns_eval[symmetric])

text \<open>The example folder: two fragments, three rows, the eight columns.\<close>

theorem unified_table_has_key_columns_witness:
  "\<exists>t. unify_folder demo_env (ustr ''Data'') (ustr ''HURTO'') = Inr t
        \<and> columns t = map LStr key_columns \<and> nrows t = 3"
proof -
  have "[fragment_2020, fragment_2021] \<noteq> []
        \<and> (\<forall>df \<in> set [fragment_2020, fragment_2021]. distinct (columns df))"
    by (simp add: demo_fragments_distinct)
  with unified_table_has_key_columns[of "[fragment_2020, fragment_2021]"]
  obtain t where "unify_frames [fragment_2020, fragment_2021] = Inr t"
    "columns t = map LStr key_columns"
    "nrows t = sum_list (map nrows [fragment_2020, fragment_2021])"
    by blast
  then show ?thesis
    by (simp add: unify_folder_def demo_folder_fragments fragment_2020_def fragment_2021_def)
qed

text \<open>
  Against C1 as stated: the table of a folder without fragment has no column at all; and
  the file that names weapon and means in two columns gives a fragment with the label
  \<^verbatim>\<open>ARMAS MEDIOS\<close> twice, which the unified table keeps twice: nine columns.
\<close>

theorem unified_table_without_or_with_repeated_columns:
  "unify_frames [] = Inr empty_frame
   \<and> columns empty_frame \<noteq> map LStr key_columns
   \<and> standardize frame_two_weapons = fragment_two_weapons
   \<and> unify_frames [fragment_two_weapons] =
        Inr \<lparr>nrows = 1,
             cols = [(LStr (ustr ''DEPARTAMENTO''), [Str []]),
                     (LStr (ustr ''MUNICIPIO''), [Str []]),
                     (LStr (ustr ''CODIGO DANE''), [Str []]),
                     (LStr (ustr ''ARMAS MEDIOS''), [Str (ustr ''CUCHILLO'')]),
                     (LStr (ustr ''ARMAS MEDIOS''), [Str (ustr ''A PIE'')]),
                     (LStr (ustr ''FECHA HECHO''), [Str []]),
                     (LStr (ustr ''GENERO''), [Str []]),
                     (LStr (ustr ''AGRUPA EDAD PERSONA''), [Str []]),
                     (LStr (ustr ''CANTIDAD''), [Str []])]\<rparr>"
proof (intro conjI)
  show "unify_frames [] = Inr empty_frame" by (simp add: unify_frames_def)
  show "columns empty_frame \<noteq> map LStr key_columns"
    by (simp add: empty_frame_def columns_def key_columns_eval)
  show "standardize frame_two_weapons = fragment_two_weapons" by (rule demo_fragments)
  show "unify_frames [fragment_two_weapons] =
        Inr \<lparr>nrows = 1,
             cols = [(LStr (ustr ''DEPARTAMENTO''), [Str []]),
                     (LStr (ustr ''MUNICIPIO''), [Str []]),
                     (LStr (ustr ''CODIGO DANE''), [Str []]),
                     (LStr (ustr ''ARMAS MEDIOS''), [Str (ustr ''CUCHILLO'')]),
                     (LStr (ustr ''ARMAS MEDIOS''), [Str (ustr ''A PIE'')]),
                     (LStr (ustr ''FECHA HECHO''), [Str []]),
                     (LStr (ustr ''GENERO''), [Str []]),
                     (LStr (ustr ''AGRUPA EDAD PERSONA''), [Str []]),
                     (LStr (ustr ''CANTIDAD''), [Str []])]\<rparr>"
    by (simp add: unify_frames_def fragment_two_weapons_def stack_by_position_def columns_def
          add_missing_columns_def select_columns_def key_columns_eval ustr_def)
qed

section \<open>The exploration report: results\<close>

lemma first_index_Cons:
  "first_index (x # xs) v = (if v = x then 0 else Suc (first_index xs v))"
  by (auto simp: first_index_def)

lemma first_seen_in_order:
  "sorted_wrt (\<lambda>a b. first_index xs a < first_index xs b) (first_seen xs)"
proof (induction xs)
  case Nil
  show ?case by simp
next
  case (Cons x xs)
  let ?rest = "filter (\<lambda>y. y \<noteq> x) (first_seen xs)"
  have "sorted_wrt (\<lambda>a b. first_index xs a < first_index xs b) ?rest"
    using Cons.IH by (rule sorted_wrt_filter)
  then have "sorted_wrt (\<lambda>a b. first_index (x # xs) a < first_index (x # xs) b) ?rest"
    by (rule sorted_wrt_mono_rel[rotated]) (auto simp: first_index_Cons)
  moreover have "\<forall>y \<in> set ?rest. first_index (x # xs) x < first_index (x # xs) y"
    by (auto simp: first_index_Cons)
  ultimately show ?case by simp
qed

lemma insort_key_keeps_ties:
  assumes "sorted_wrt (\<lambda>p q. f p < f q \<or> (f p = f q \<and> R p q)) ys" "\<forall>y \<in> set ys. R x y"
  shows "sorted_wrt (\<lambda>p q. f p < f q \<or> (f p = f q \<and> R p q)) (insort_key f x ys)"
  using assms
proof (induction ys)
  case Nil
  show ?case by simp
next
  case (Cons y ys)
  show ?case
  proof (cases "f x \<le> f y")
    case True
    have "\<forall>z \<in> set (y # ys). f x < f z \<or> (f x = f z \<and> R x z)"
    proof
      fix z assume z: "z \<in> set (y # ys)"
      with Cons.prems(1) have "f y \<le> f z" by auto
      with True have "f x \<le> f z" by simp
      with z Cons.prems(2) show "f x < f z \<or> (f x = f z \<and> R x z)" by auto
    qed
    with True Cons.prems(1) show ?thesis by simp
  next
    case False
    with Cons show ?thesis by (auto simp: set_insort_key)
  qed
qed

lemma sort_key_keeps_ties:
  "sorted_wrt R xs \<Longrightarrow>
     sorted_wrt (\<lambda>p q. f p < f q \<or> (f p = f q \<and> R p q)) (sort_key f xs)"
proof (induction xs)
  case Nil
  show ?case by simp
next
  case (Cons x xs)
  then have "sorted_wrt (\<lambda>p q. f p < f q \<or> (f p = f q \<and> R p q)) (sort_key f xs)"
    and "\<forall>y \<in> set (sort_key f xs). R x y"
    by simp_all
  then show ?case by (simp add: insort_key_keeps_ties)
qed

lemma value_counts_ranked: "sorted_wrt (ranks_before xs) (value_counts xs)"
proof -
  have "sorted_wrt (\<lambda>p q. first_index xs (fst p) < first_index xs (fst q)) (counts_first_seen xs)"
    by (simp add: counts_first_seen_def sorted_wrt_map first_seen_in_order)
  from sort_key_keeps_ties[OF this, of "\<lambda>p. - int (snd p)"]
  have "sorted_wrt (\<lambda>p q. - int (snd p) < - int (snd q)
           \<or> (- int (snd p) = - int (snd q)
               \<and> first_index xs (fst p) < first_index xs (fst q))) (value_counts xs)"
    by (simp add: value_counts_def)
  then show ?thesis
    by (rule sorted_wrt_mono_rel[rotated]) (auto simp: ranks_before_def)
qed

lemma set_value_counts: "set (value_counts xs) = (\<lambda>v. (v, count_list xs v)) ` set xs"
  by (simp add: value_counts_def counts_first_seen_def set_first_seen)

lemma distinct_value_counts: "distinct (map fst (value_counts xs))"
proof -
  have "distinct (map fst (counts_first_seen xs))"
    by (simp add: counts_first_seen_def comp_def distinct_first_seen)
  then show ?thesis
    by (simp add: value_counts_def distinct_map)
qed

lemma top5_example:
  "X \<noteq> Y \<Longrightarrow> X \<noteq> Z \<Longrightarrow> Y \<noteq> Z \<Longrightarrow> top5 [X, X, Y, Y, Z] = [(X, 2), (Y, 2), (Z, 1)]"
  by (simp add: top5_def value_counts_def counts_first_seen_def)

lemma map_of_per_column:
  "map_of (per_column f df keys) col
     = (if col \<in> set keys then map_option f (map_of (cols df) (LStr col)) else None)"
proof (induction keys)
  case Nil
  show ?case by (simp add: per_column_def)
next
  case (Cons k keys)
  have step: "per_column f df (k # keys)
        = (case map_of (cols df) (LStr k) of Some cells \<Rightarrow> [(k, f cells)] | None \<Rightarrow> [])
          @ per_column f df keys"
    by (simp add: per_column_def)
  show ?case
    unfolding step using Cons.IH
    by (cases "map_of (cols df) (LStr k)") (auto simp: map_add_def split: option.splits)
qed

lemmas unify_eval = unify_frames_def concat_frames.simps stack_by_position_def columns_def
  add_missing_columns_def select_columns_def key_columns_eval

lemma replicate_3: "replicate 3 x = [x, x, x]"
  by (simp add: numeral_3_eq_3)

lemma replicate_5: "replicate 5 x = [x, x, x, x, x]"
  by (simp add: eval_nat_numeral)

lemma demo_tables:
  "unify_frames [frame_genders] = Inr table_genders"
  "unify_frames [frame_dates] = Inr table_dates"
  by (simp_all add: unify_eval frame_genders_def table_genders_def frame_dates_def table_dates_def
        blank5_def blank3_def replicate_3 replicate_5 ustr_def)

text \<open>On a table with distinct labels the report is made, and it is the record below.\<close>

lemma deep_exploration_distinct:
  "distinct (columns df) \<Longrightarrow>
     deep_exploration df keys = Inr
        \<lparr>shape = (nrows df, length (cols df)),
         columnas = columns df,
         nulos_por_columna = per_column null_count df keys,
         faltantes_por_columna =
           per_column (\<lambda>cells. length (filter (\<lambda>x. x = Str []) cells)) df keys,
         conteo_por_columna =
           per_column (\<lambda>cells. length (filter (\<lambda>x. \<not> is_null x) cells)) df keys,
         unicos_por_columna = per_column (\<lambda>cells. length (first_seen cells)) df keys,
         top_valores = per_column top5 df keys,
         distribucion_anio = year_distribution df keys\<rparr>"
proof -
  assume d: "distinct (columns df)"
  have "\<not> list_ex (\<lambda>col. count_list (columns df) (LStr col) > 1) keys"
    using distinct_count_list_le1[OF d] by (auto simp: list_ex_iff dest: leD)
  then show ?thesis by (simp add: deep_exploration_def)
qed

lemma deep_exploration_Inr:
  "deep_exploration df keys = Inr report \<Longrightarrow>
     top_valores report = per_column top5 df keys
     \<and> distribucion_anio report = year_distribution df keys"
  by (auto simp: deep_exploration_def split: if_splits)

text \<open>
  C8 (the five most frequent values of a column). For a column of a table with distinct
  labels that is one of the key columns, the report lists under \<^verbatim>\<open>top_valores\<close> the first
  five entries of the ranking of the distinct values of the column, each with the number
  of its occurrences; the ranking puts the higher count first and, among equal counts,
  the value that occurs first in the column. For the values X, X, Y, Y, Z the entries are
  X with 2, Y with 2 and Z with 1, in this order.
\<close>

theorem top_values_most_frequent_first:
  "(distinct (columns df) \<and> col \<in> set keys \<and> map_of (cols df) (LStr col) = Some cells \<longrightarrow>
      (\<exists>report. deep_exploration df keys = Inr report
         \<and> map_of (top_valores report) col = Some (top5 cells)))
   \<and> (\<exists>rest. length (top5 cells) = min 5 (length (top5 cells @ rest))
         \<and> distinct (map fst (top5 cells @ rest))
         \<and> set (map fst (top5 cells @ rest)) = set cells
         \<and> (\<forall>p \<in> set (top5 cells @ rest). snd p = count_list cells (fst p))
         \<and> sorted_wrt (ranks_before cells) (top5 cells @ rest))
   \<and> (X \<noteq> Y \<and> X \<noteq> Z \<and> Y \<noteq> Z \<longrightarrow> top5 [X, X, Y, Y, Z] = [(X, 2), (Y, 2), (Z, 1)])"
proof (intro conjI impI)
  assume a: "distinct (columns df) \<and> col \<in> set keys \<and> map_of (cols df) (LStr col) = Some cells"
  then have "deep_exploration df keys = Inr (projr (deep_exploration df keys))"
    by (simp add: deep_exploration_distinct)
  moreover from a have "map_of (top_valores (projr (deep_exploration df keys))) col = Some (top5 cells)"
    by (simp add: deep_exploration_distinct map_of_per_column)
  ultimately show "\<exists>report. deep_exploration df keys = Inr report
         \<and> map_of (top_valores report) col = Some (top5 cells)"
    by blast
next
  let ?vc = "value_counts cells"
  have split: "top5 cells @ drop 5 ?vc = ?vc" by (simp add: top5_def)
  have "length (top5 cells) = min 5 (length ?vc)" by (simp add: top5_def)
  moreover have "distinct (map fst ?vc)" by (rule distinct_value_counts)
  moreover have "set (map fst ?vc) = set cells"
    by (simp add: set_value_counts image_image)
  moreover have "\<forall>p \<in> set ?vc. snd p = count_list cells (fst p)"
    by (auto simp: set_value_counts)
  moreover have "sorted_wrt (ranks_before cells) ?vc" by (rule value_counts_ranked)
  ultimately have "length (top5 cells) = min 5 (length (top5 cells @ drop 5 ?vc))
         \<and> distinct (map fst (top5 cells @ drop 5 ?vc))
         \<and> set (map fst (top5 cells @ drop 5 ?vc)) = set cells
         \<and> (\<forall>p \<in> set (top5 cells @ drop 5 ?vc). snd p = count_list cells (fst p))
         \<and> sorted_wrt (ranks_before cells) (top5 cells @ drop 5 ?vc)"
    unfolding split by blast
  then show "\<exists>rest. length (top5 cells) = min 5 (length (top5 cells @ rest))
         \<and> distinct (map fst (top5 cells @ rest))
         \<and> set (map fst (top5 cells @ rest)) = set cells
         \<and> (\<forall>p \<in> set (top5 cells @ rest). snd p = count_list cells (fst p))
         \<and> sorted_wrt (ranks_before cells) (top5 cells @ rest)"
    by (rule exI)
next
  assume "X \<noteq> Y \<and> X \<noteq> Z \<and> Y \<noteq> Z"
  then show "top5 [X, X, Y, Y, Z] = [(X, 2), (Y, 2), (Z, 1)]"
    by (simp add: top5_example)
qed

text \<open>A gender column with two values of count two and one of count one.\<close>

theorem top_values_most_frequent_first_witness:
  "unify_frames [frame_genders] = Inr table_genders
   \<and> (\<exists>report. deep_exploration table_genders key_columns = Inr report
         \<and> map_of (top_valores report) (ustr ''GENERO'')
             = Some [(Str (ustr ''MASCULINO''), 2), (Str (ustr ''FEMENINO''), 2),
                     (Str (ustr ''NO REPORTA''), 1)])"
proof -
  let ?cells = "[Str (ustr ''MASCULINO''), Str (ustr ''MASCULINO''), Str (ustr ''FEMENINO''),
                 Str (ustr ''FEMENINO''), Str (ustr ''NO REPORTA'')]"
  have d: "distinct (columns table_genders)"
    by (simp add: table_genders_def columns_def ustr_def)
  have k: "ustr ''GENERO'' \<in> set key_columns"
    by (simp add: key_columns_eval)
  have c: "map_of (cols table_genders) (LStr (ustr ''GENERO'')) = Some ?cells"
    by (simp add: table_genders_def ustr_def)
  have ne: "Str (ustr ''MASCULINO'') \<noteq> Str (ustr ''FEMENINO'')
        \<and> Str (ustr ''MASCULINO'') \<noteq> Str (ustr ''NO REPORTA'')
        \<and> Str (ustr ''FEMENINO'') \<noteq> Str (ustr ''NO REPORTA'')"
    by (simp add: ustr_def)
  from top_values_most_frequent_first[of table_genders "ustr ''GENERO''" key_columns ?cells
      "Str (ustr ''MASCULINO'')" "Str (ustr ''FEMENINO'')" "Str (ustr ''NO REPORTA'')"] d k c ne
  have "\<exists>report. deep_exploration table_genders key_columns = Inr report
          \<and> map_of (top_valores report) (ustr ''GENERO'') = Some (top5 ?cells)"
    and "top5 ?cells = [(Str (ustr ''MASCULINO''), 2), (Str (ustr ''FEMENINO''), 2),
               (Str (ustr ''NO REPORTA''), 1)]"
    by blast+
  then show ?thesis by (simp add: demo_tables)
qed

lemma year_col_of_key_columns: "year_col_of key_columns = None"
  by (simp add: year_col_of_def key_columns_eval py_in_def sublist_code ustr_def)

lemma sort_index_sorted: "sorted_wrt (\<lambda>p q. cell_le (fst p) (fst q)) (sort_index vc)"
proof -
  let ?k = "\<lambda>p. py_str_cell (fst p)"
  let ?S = "sort_key ?k (filter (\<lambda>p. is_Str (fst p)) vc)"
  let ?M = "filter (\<lambda>p. \<not> is_Str (fst p)) vc"
  have str: "cell_le (fst p) (fst q) = (?k p \<le> ?k q)" if "is_Str (fst p)" "is_Str (fst q)" for p q :: "cell \<times> nat"
    using that by (cases "fst p"; cases "fst q") simp_all
  have top: "cell_le c d" if "\<not> is_Str d" for c d
    using that by (cases c; cases d) simp_all
  have "sorted (map ?k ?S)" by (rule sorted_sort_key)
  then have "sorted_wrt (\<lambda>p q. ?k p \<le> ?k q) ?S" by (simp add: sorted_map)
  then have s: "sorted_wrt (\<lambda>p q. cell_le (fst p) (fst q)) ?S"
    by (rule sorted_wrt_mono_rel[rotated]) (simp add: str)
  have "sorted_wrt (\<lambda>p q. True) ?M" by simp
  then have m: "sorted_wrt (\<lambda>p q. cell_le (fst p) (fst q)) ?M"
    by (rule sorted_wrt_mono_rel[rotated]) (simp add: top)
  have "\<forall>p \<in> set ?S. \<forall>q \<in> set ?M. cell_le (fst p) (fst q)"
    by (simp add: top)
  with s m show ?thesis
    by (simp add: sort_index_def sorted_wrt_append)
qed

lemma year_col_of_Some:
  "year_col_of keys = Some c \<Longrightarrow>
     c \<in> set keys \<and> (py_in [65, 209, 79] c \<or> py_in (ustr ''YEAR'') c) \<and> c \<noteq> []"
  by (auto simp: year_col_of_def find_Some_iff py_in_def ustr_def)

text \<open>
  C9, as the code has it. The report holds a year distribution only when some key column
  has a name that contains \<^verbatim>\<open>YEAR\<close> or the Spanish word for year (A, N with tilde, O) and
  the first such key column is a column of the table; the distribution is then the
  count of each value of that column, in rising order of the values, missing values
  last. No standard column has such a name, so the report of a unified table never
  holds a year distribution, whatever its date column contains.
\<close>

theorem year_distribution_only_for_year_named_key:
  "year_col_of key_columns = None
   \<and> (deep_exploration df key_columns = Inr report0 \<longrightarrow> distribucion_anio report0 = None)
   \<and> (deep_exploration df keys = Inr report \<and> distribucion_anio report = Some dist \<longrightarrow>
        (\<exists>year_col cells. year_col \<in> set keys
           \<and> (py_in [65, 209, 79] year_col \<or> py_in (ustr ''YEAR'') year_col)
           \<and> year_col_of keys = Some year_col
           \<and> map_of (cols df) (LStr year_col) = Some cells
           \<and> dist = sort_index (value_counts cells)
           \<and> sorted_wrt (\<lambda>p q. cell_le (fst p) (fst q)) dist))
   \<and> (deep_exploration df keys = Inr report \<and> year_col_of keys = Some c
        \<and> map_of (cols df) (LStr c) = Some cells \<longrightarrow>
        distribucion_anio report = Some (sort_index (value_counts cells)))"
proof (intro conjI impI)
  show "year_col_of key_columns = None" by (rule year_col_of_key_columns)
next
  assume "deep_exploration df key_columns = Inr report0"
  from deep_exploration_Inr[OF this] show "distribucion_anio report0 = None"
    by (simp add: year_distribution_def year_col_of_key_columns)
next
  assume "deep_exploration df keys = Inr report \<and> distribucion_anio report = Some dist"
  with deep_exploration_Inr[of df keys report] have a: "year_distribution df keys = Some dist"
    by simp
  then obtain yc where yc: "year_col_of keys = Some yc"
    by (cases "year_col_of keys") (simp_all add: year_distribution_def)
  with a obtain cells where c: "map_of (cols df) (LStr yc) = Some cells"
    and d: "dist = sort_index (value_counts cells)"
    by (cases "map_of (cols df) (LStr yc)")
       (auto simp: year_distribution_def split: if_splits)
  from year_col_of_Some[OF yc] yc c d sort_index_sorted[of "value_counts cells"]
  show "\<exists>year_col cells. year_col \<in> set keys
           \<and> (py_in [65, 209, 79] year_col \<or> py_in (ustr ''YEAR'') year_col)
           \<and> year_col_of keys = Some year_col
           \<and> map_of (cols df) (LStr year_col) = Some cells
           \<and> dist = sort_index (value_counts cells)
           \<and> sorted_wrt (\<lambda>p q. cell_le (fst p) (fst q)) dist"
    by blast
next
  assume a: "deep_exploration df keys = Inr report \<and> year_col_of keys = Some c
        \<and> map_of (cols df) (LStr c) = Some cells"
  with year_col_of_Some[of keys c] have "c \<noteq> []" by simp
  with a deep_exploration_Inr[of df keys report]
  show "distribucion_anio report = Some (sort_index (value_counts cells))"
    by (simp add: year_distribution_def)
qed

text \<open>A table with a column named \<^verbatim>\<open>YEAR\<close>, explored with that name as key column.\<close>

theorem year_distribution_only_for_year_named_key_witness:
  "\<exists>report. deep_exploration table_years [ustr ''YEAR''] = Inr report
     \<and> distribucion_anio report
         = Some [(Str (ustr ''2020''), 2), (Str (ustr ''2021''), 1), (NaN, 1)]"
proof -
  let ?cells = "[Str (ustr ''2021''), Str (ustr ''2020''), NaN, Str (ustr ''2020'')]"
  have d: "distinct (columns table_years)"
    by (simp add: table_years_def columns_def)
  then obtain report where r: "deep_exploration table_years [ustr ''YEAR''] = Inr report"
    by (simp add: deep_exploration_distinct)
  have y: "year_col_of [ustr ''YEAR''] = Some (ustr ''YEAR'')"
    by (simp add: year_col_of_def py_in_def sublist_code ustr_def)
  have c: "map_of (cols table_years) (LStr (ustr ''YEAR'')) = Some ?cells"
    by (simp add: table_years_def)
  have v: "sort_index (value_counts ?cells)
             = [(Str (ustr ''2020''), 2), (Str (ustr ''2021''), 1), (NaN, 1)]"
    by (simp add: sort_index_def value_counts_def counts_first_seen_def ustr_def)
  from year_distribution_only_for_year_named_key[of table_years _ "[ustr ''YEAR'']" report _
      "ustr ''YEAR''" ?cells] r y c
  have "distribucion_anio report = Some (sort_index (value_counts ?cells))"
    by blast
  with v r show ?thesis by simp
qed

text \<open>
  Against C9 as stated: the unified table of a file with three dated records has the
  date column \<^verbatim>\<open>FECHA HECHO\<close>, and its report holds no year distribution.
\<close>

theorem date_column_gets_no_year_distribution:
  "unify_frames [frame_dates] = Inr table_dates
   \<and> LStr (ustr ''FECHA HECHO'') \<in> set (columns table_dates)
   \<and> (\<exists>report. deep_exploration table_dates key_columns = Inr report
         \<and> distribucion_anio report = None)"
proof -
  have d: "distinct (columns table_dates)"
    by (simp add: table_dates_def columns_def ustr_def)
  have "LStr (ustr ''FECHA HECHO'') \<in> set (columns table_dates)"
    by (simp add: table_dates_def columns_def)
  moreover have "\<exists>report. deep_exploration table_dates key_columns = Inr report
         \<and> distribucion_anio report = None"
    by (simp add: deep_exploration_distinct[OF d] year_distribution_def year_col_of_key_columns)
  ultimately show ?thesis by (simp add: demo_tables)
qed

end
